theory Spec2Isabelle
  imports Main
begin

section \<open>JavaScript values\<close>

text \<open>
  The attributes of \<^verbatim>\<open>MediaProperties\<close> are typed \<^verbatim>\<open>any\<close> or by interfaces that are
  erased at run time, so an attribute holds an arbitrary JavaScript value. Objects
  (streams, connections) are opaque handles. Numbers are modelled by integers.
\<close>

datatype jsval =
    JUndefined
  | JNull
  | JBool bool
  | JNum int
  | JStr string
  | JObj nat

text \<open>JavaScript truthiness, as used by \<^verbatim>\<open>||\<close>, \<^verbatim>\<open>!!\<close> and \<^verbatim>\<open>if (...)\<close>.\<close>

fun truthy :: "jsval \<Rightarrow> bool" where
  "truthy JUndefined = False"
| "truthy JNull = False"
| "truthy (JBool b) = b"
| "truthy (JNum n) = (n \<noteq> 0)"
| "truthy (JStr s) = (s \<noteq> [])"
| "truthy (JObj h) = True"

text \<open>\<^verbatim>\<open>a || b\<close> evaluates to \<^verbatim>\<open>a\<close> when it is truthy and to \<^verbatim>\<open>b\<close> otherwise.\<close>

definition js_or :: "jsval \<Rightarrow> jsval \<Rightarrow> jsval" where
  "js_or a b = (if truthy a then a else b)"

text \<open>\<^verbatim>\<open>!!a\<close>: two negations of the truthiness of \<^verbatim>\<open>a\<close>.\<close>

definition js_not_not :: "jsval \<Rightarrow> bool" where
  "js_not_not a = (\<not> \<not> truthy a)"

section \<open>The data model of \<^verbatim>\<open>media/properties.ts\<close>\<close>

text \<open>The type \<^verbatim>\<open>MediaDirection\<close> (lines 14 to 21).\<close>

record MediaDirection =
  sendAudio :: bool
  sendVideo :: bool
  sendShare :: bool
  receiveAudio :: bool
  receiveVideo :: bool
  receiveShare :: bool

text \<open>
  The constants imported from \<^verbatim>\<open>../constants\<close> (line 11). That module is not part of
  the sources at hand, so the three values are parameters of the model.
\<close>

record constants =
  MEETINGS :: jsval
  PC_BAIL_TIMEOUT :: nat
  QUALITY_LEVELS_HIGH :: jsval

text \<open>
  The class \<^verbatim>\<open>MediaProperties\<close> (lines 26 to 39). The last field,
  \<^verbatim>\<open>remoteShareStream\<close>, is not declared by the class: it is the property that
  \<^verbatim>\<open>unsetRemoteShareStream\<close> (line 152) assigns to. A property that has never been
  assigned reads as \<^verbatim>\<open>undefined\<close>.
\<close>

record MediaProperties =
  audioStream :: jsval
  mediaDirection :: MediaDirection
  mediaSettings :: "string \<rightharpoonup> jsval"
  webrtcMediaConnection :: jsval
  remoteAudioStream :: jsval
  remoteQualityLevel :: jsval
  remoteShare :: jsval
  remoteVideoStream :: jsval
  shareVideoStream :: jsval
  shareAudioStream :: jsval
  videoDeviceId :: jsval
  videoStream :: jsval
  namespace :: jsval
  remoteShareStream :: jsval

text \<open>The constructor (lines 45 to 65), with the field initialiser of line 39.\<close>

definition MediaProperties_constructor :: "constants \<Rightarrow> MediaProperties" where
  "MediaProperties_constructor k =
     \<lparr> audioStream = JNull,
       mediaDirection =
         \<lparr> sendAudio = False, sendVideo = False, sendShare = False,
           receiveAudio = False, receiveVideo = False, receiveShare = False \<rparr>,
       mediaSettings = Map.empty,
       webrtcMediaConnection = JNull,
       remoteAudioStream = JUndefined,
       remoteQualityLevel = QUALITY_LEVELS_HIGH k,
       remoteShare = JUndefined,
       remoteVideoStream = JUndefined,
       shareVideoStream = JNull,
       shareAudioStream = JNull,
       videoDeviceId = JNull,
       videoStream = JNull,
       namespace = MEETINGS k,
       remoteShareStream = JUndefined \<rparr>"

subsection \<open>Accessors, setters and unsetters (lines 71 to 170)\<close>

definition getVideoDeviceId :: "MediaProperties \<Rightarrow> jsval" where
  "getVideoDeviceId this = js_or (videoDeviceId this) JNull"

definition setMediaDirection :: "MediaDirection \<Rightarrow> MediaProperties \<Rightarrow> MediaProperties" where
  "setMediaDirection d this = this\<lparr>mediaDirection := d\<rparr>"

definition setMediaSettings :: "string \<Rightarrow> jsval \<Rightarrow> MediaProperties \<Rightarrow> MediaProperties" where
  "setMediaSettings type values this =
     this\<lparr>mediaSettings := (mediaSettings this)(type \<mapsto> values)\<rparr>"

definition setMediaPeerConnection :: "jsval \<Rightarrow> MediaProperties \<Rightarrow> MediaProperties" where
  "setMediaPeerConnection mediaPeerConnection this =
     this\<lparr>webrtcMediaConnection := mediaPeerConnection\<rparr>"

definition setLocalVideoStream :: "jsval \<Rightarrow> MediaProperties \<Rightarrow> MediaProperties" where
  "setLocalVideoStream v this = this\<lparr>videoStream := v\<rparr>"

definition setLocalAudioStream :: "jsval \<Rightarrow> MediaProperties \<Rightarrow> MediaProperties" where
  "setLocalAudioStream v this = this\<lparr>audioStream := v\<rparr>"

definition setLocalShareVideoStream :: "jsval \<Rightarrow> MediaProperties \<Rightarrow> MediaProperties" where
  "setLocalShareVideoStream v this = this\<lparr>shareVideoStream := v\<rparr>"

definition setLocalShareAudioStream :: "jsval \<Rightarrow> MediaProperties \<Rightarrow> MediaProperties" where
  "setLocalShareAudioStream v this = this\<lparr>shareAudioStream := v\<rparr>"

definition setRemoteQualityLevel :: "jsval \<Rightarrow> MediaProperties \<Rightarrow> MediaProperties" where
  "setRemoteQualityLevel v this = this\<lparr>remoteQualityLevel := v\<rparr>"

definition setRemoteShare :: "jsval \<Rightarrow> MediaProperties \<Rightarrow> MediaProperties" where
  "setRemoteShare v this = this\<lparr>remoteShare := v\<rparr>"

definition setRemoteAudioStream :: "jsval \<Rightarrow> MediaProperties \<Rightarrow> MediaProperties" where
  "setRemoteAudioStream v this = this\<lparr>remoteAudioStream := v\<rparr>"

definition setRemoteVideoStream :: "jsval \<Rightarrow> MediaProperties \<Rightarrow> MediaProperties" where
  "setRemoteVideoStream v this = this\<lparr>remoteVideoStream := v\<rparr>"

definition setVideoDeviceId :: "jsval \<Rightarrow> MediaProperties \<Rightarrow> MediaProperties" where
  "setVideoDeviceId deviceId this = this\<lparr>videoDeviceId := deviceId\<rparr>"

definition unsetPeerConnection :: "MediaProperties \<Rightarrow> MediaProperties" where
  "unsetPeerConnection this = this\<lparr>webrtcMediaConnection := JNull\<rparr>"

definition unsetRemoteMedia :: "MediaProperties \<Rightarrow> MediaProperties" where
  "unsetRemoteMedia this = this\<lparr>remoteAudioStream := JNull, remoteVideoStream := JNull\<rparr>"

definition unsetRemoteShareStream :: "MediaProperties \<Rightarrow> MediaProperties" where
  "unsetRemoteShareStream this = this\<lparr>remoteShareStream := JNull\<rparr>"

definition unsetRemoteStreams :: "MediaProperties \<Rightarrow> MediaProperties" where
  "unsetRemoteStreams this = unsetRemoteShareStream (unsetRemoteMedia this)"

definition hasLocalShareStream :: "MediaProperties \<Rightarrow> bool" where
  "hasLocalShareStream this = js_not_not (js_or (shareAudioStream this) (shareVideoStream this))"

section \<open>The external media connection\<close>

text \<open>
  \<^verbatim>\<open>ConnectionState\<close> is the enumeration of \<^verbatim>\<open>@webex/internal-media-core\<close>; the code
  compares a state with \<^verbatim>\<open>ConnectionState.Connected\<close> only.
\<close>

datatype ConnectionState = New | Closed | Connected | Connecting | Disconnected | Failed

text \<open>
  One entry of the result of \<^verbatim>\<open>getStats()\<close>, with the properties the code reads. A
  property that is absent (\<^verbatim>\<open>undefined\<close>) is \<open>None\<close>.
\<close>

record StatsReport =
  type :: "string option"
  id_report :: "string option"
  state :: "string option"
  localCandidateId :: "string option"
  relayProtocol :: "string option"
  protocol :: "string option"

text \<open>What a call of \<^verbatim>\<open>getStats()\<close> does: it throws, its promise rejects, or its promise
  is fulfilled with the reports (in the order \<^verbatim>\<open>forEach\<close> visits them).\<close>

datatype StatsOutcome = StatsThrows | StatsRejects | StatsOk "StatsReport list"

text \<open>
  The connection object kept in \<^verbatim>\<open>webrtcMediaConnection\<close>: the value
  \<^verbatim>\<open>getConnectionState()\<close> returns, the listeners registered with \<^verbatim>\<open>on\<close> for
  \<^verbatim>\<open>Event.CONNECTION_STATE_CHANGED\<close> (the only event the code names) in registration
  order, and what \<^verbatim>\<open>getStats()\<close> does. A listener is named by the number of the call
  of \<^verbatim>\<open>waitForMediaConnectionConnected\<close> that created it.
\<close>

record MediaConnection =
  connectionState :: ConnectionState
  listeners :: "nat list"
  getStats :: StatsOutcome

section \<open>The run-time state\<close>

datatype js_error = TypeError

datatype PromiseState = Pending | Resolved | Rejected

text \<open>
  The world a call runs in: the \<^verbatim>\<open>MediaProperties\<close> instance, the store of connection
  objects (the handle \<open>JObj h\<close> names the object at index \<open>h\<close>), the armed timers
  (the call that armed it, and the delay), and the promises returned by the calls of
  \<^verbatim>\<open>waitForMediaConnectionConnected\<close> so far (call \<open>p\<close> returned promise \<open>p\<close>).
  The calls of \<^verbatim>\<open>LoggerProxy.logger\<close> write to an external sink and are left out.
\<close>

record world =
  props :: MediaProperties
  heap :: "MediaConnection list"
  timers :: "(nat \<times> nat) list"
  promises :: "PromiseState list"

text \<open>Dereferencing \<^verbatim>\<open>this.webrtcMediaConnection\<close> for a method call: \<open>None\<close> when the
  value is not a connection object (the call throws a \<^verbatim>\<open>TypeError\<close>).\<close>

definition connection_of :: "world \<Rightarrow> (nat \<times> MediaConnection) option" where
  "connection_of w =
     (case webrtcMediaConnection (props w) of
        JObj h \<Rightarrow> if h < length (heap w) then Some (h, heap w ! h) else None
      | _ \<Rightarrow> None)"

text \<open>The closure \<^verbatim>\<open>isConnected\<close> (lines 178 and 179).\<close>

definition isConnected :: "world \<Rightarrow> js_error + bool" where
  "isConnected w =
     (case connection_of w of
        None \<Rightarrow> Inl TypeError
      | Some (h, c) \<Rightarrow> Inr (connectionState c = Connected))"

text \<open>
  The run-time operations the code calls. \<^verbatim>\<open>setTimeout\<close> arms the timer of call \<open>p\<close>
  and \<^verbatim>\<open>clearTimeout\<close> disarms it. \<^verbatim>\<open>on\<close> of the connection at \<open>h\<close> registers
  listener \<open>p\<close> after those already registered, and \<^verbatim>\<open>off\<close> removes one registration
  of it. The \<^verbatim>\<open>resolve\<close> and \<^verbatim>\<open>reject\<close> functions of promise \<open>p\<close> settle it when it
  is pending and do nothing otherwise.
\<close>

definition setTimeout :: "nat \<Rightarrow> nat \<Rightarrow> world \<Rightarrow> world" where
  "setTimeout p delay w = w\<lparr>timers := timers w @ [(p, delay)]\<rparr>"

definition clearTimeout :: "nat \<Rightarrow> world \<Rightarrow> world" where
  "clearTimeout p w = w\<lparr>timers := filter (\<lambda>t. fst t \<noteq> p) (timers w)\<rparr>"

definition on :: "nat \<Rightarrow> nat \<Rightarrow> world \<Rightarrow> world" where
  "on h p w =
     w\<lparr>heap := (heap w)[h := (heap w ! h)\<lparr>listeners := listeners (heap w ! h) @ [p]\<rparr>]\<rparr>"

definition off :: "nat \<Rightarrow> nat \<Rightarrow> world \<Rightarrow> world" where
  "off h p w =
     w\<lparr>heap := (heap w)[h := (heap w ! h)\<lparr>listeners := remove1 p (listeners (heap w ! h))\<rparr>]\<rparr>"

definition settle :: "PromiseState \<Rightarrow> nat \<Rightarrow> world \<Rightarrow> world" where
  "settle v p w =
     (if p < length (promises w) \<and> promises w ! p = Pending
      then w\<lparr>promises := (promises w)[p := v]\<rparr> else w)"

definition resolve :: "nat \<Rightarrow> world \<Rightarrow> world" where
  "resolve p w = settle Resolved p w"

definition reject :: "nat \<Rightarrow> world \<Rightarrow> world" where
  "reject p w = settle Rejected p w"

section \<open>\<^verbatim>\<open>waitForMediaConnectionConnected\<close> (lines 177 to 207)\<close>

text \<open>
  The executor of the promise of call \<open>p\<close> (lines 185 to 206), which runs inside the
  call: it arms the timer with \<^verbatim>\<open>PC_BAIL_TIMEOUT\<close>, then registers the listener on
  \<^verbatim>\<open>this.webrtcMediaConnection\<close>. An exception thrown in an executor rejects the
  promise.
\<close>

definition executor :: "constants \<Rightarrow> nat \<Rightarrow> world \<Rightarrow> world" where
  "executor k p w =
     (let w1 = setTimeout p (PC_BAIL_TIMEOUT k) w in
      case connection_of w1 of
        None \<Rightarrow> reject p w1
      | Some (h, c) \<Rightarrow> on h p w1)"

text \<open>
  The call either throws (\<open>Inl\<close>) or returns a promise (its number) and the new world.
  When \<^verbatim>\<open>isConnected()\<close> holds the promise is \<^verbatim>\<open>Promise.resolve()\<close>; otherwise it is a
  new promise, pending when its executor starts.
\<close>

definition waitForMediaConnectionConnected :: "constants \<Rightarrow> world \<Rightarrow> js_error + (nat \<times> world)" where
  "waitForMediaConnectionConnected k w =
     (let p = length (promises w) in
      case isConnected w of
        Inl e \<Rightarrow> Inl e
      | Inr connected \<Rightarrow>
          if connected
          then Inr (p, w\<lparr>promises := promises w @ [Resolved]\<rparr>)
          else Inr (p, executor k p (w\<lparr>promises := promises w @ [Pending]\<rparr>)))"

text \<open>
  The listener \<^verbatim>\<open>connectionStateListener\<close> of call \<open>p\<close> (lines 188 to 198). The log
  line reads the state of the connection, as \<^verbatim>\<open>isConnected\<close> does after it; both throw
  when there is no connection.
\<close>

definition connectionStateListener :: "nat \<Rightarrow> world \<Rightarrow> js_error + world" where
  "connectionStateListener p w =
     (case isConnected w of
        Inl e \<Rightarrow> Inl e
      | Inr connected \<Rightarrow>
          if connected
          then (let w1 = clearTimeout p w in
                case connection_of w1 of
                  None \<Rightarrow> Inl TypeError
                | Some (h, c) \<Rightarrow> Inr (resolve p (off h p w1)))
          else Inr w)"

text \<open>The timer callback of call \<open>p\<close> (lines 200 to 203): \<^verbatim>\<open>off\<close>, then
  \<^verbatim>\<open>reject()\<close>.\<close>

definition timerCallback :: "nat \<Rightarrow> world \<Rightarrow> js_error + world" where
  "timerCallback p w =
     (case connection_of w of
        None \<Rightarrow> Inl TypeError
      | Some (h, c) \<Rightarrow> Inr (reject p (off h p w)))"

subsection \<open>What happens between the call and the settling of the promise\<close>

text \<open>A call of a setter or an unsetter of the instance.\<close>

datatype call =
    SetMediaDirection MediaDirection
  | SetMediaSettings string jsval
  | SetMediaPeerConnection jsval
  | SetLocalVideoStream jsval
  | SetLocalAudioStream jsval
  | SetLocalShareVideoStream jsval
  | SetLocalShareAudioStream jsval
  | SetRemoteQualityLevel jsval
  | SetRemoteShare jsval
  | SetRemoteAudioStream jsval
  | SetRemoteVideoStream jsval
  | SetVideoDeviceId jsval
  | UnsetPeerConnection
  | UnsetRemoteMedia
  | UnsetRemoteShareStream
  | UnsetRemoteStreams

fun apply_call :: "call \<Rightarrow> MediaProperties \<Rightarrow> MediaProperties" where
  "apply_call (SetMediaDirection d) = setMediaDirection d"
| "apply_call (SetMediaSettings t v) = setMediaSettings t v"
| "apply_call (SetMediaPeerConnection v) = setMediaPeerConnection v"
| "apply_call (SetLocalVideoStream v) = setLocalVideoStream v"
| "apply_call (SetLocalAudioStream v) = setLocalAudioStream v"
| "apply_call (SetLocalShareVideoStream v) = setLocalShareVideoStream v"
| "apply_call (SetLocalShareAudioStream v) = setLocalShareAudioStream v"
| "apply_call (SetRemoteQualityLevel v) = setRemoteQualityLevel v"
| "apply_call (SetRemoteShare v) = setRemoteShare v"
| "apply_call (SetRemoteAudioStream v) = setRemoteAudioStream v"
| "apply_call (SetRemoteVideoStream v) = setRemoteVideoStream v"
| "apply_call (SetVideoDeviceId v) = setVideoDeviceId v"
| "apply_call UnsetPeerConnection = unsetPeerConnection"
| "apply_call UnsetRemoteMedia = unsetRemoteMedia"
| "apply_call UnsetRemoteShareStream = unsetRemoteShareStream"
| "apply_call UnsetRemoteStreams = unsetRemoteStreams"

text \<open>
  The events that can follow a call, one at a time (JavaScript runs each to completion):
  the media engine changes the state of a connection; the engine emits
  \<^verbatim>\<open>CONNECTION_STATE_CHANGED\<close> on a connection, which calls the listeners registered at
  that moment, in order, and stops at one that throws; an armed timer fires, which disarms
  it and calls its callback; the program calls a setter or an unsetter of the instance;
  the program calls \<^verbatim>\<open>waitForMediaConnectionConnected\<close> again.
\<close>

datatype event =
    EngineSetsState nat ConnectionState
  | EngineEmitsStateChanged nat
  | TimerFires nat
  | ProgramCalls call
  | ProgramWaits

fun run_listeners :: "nat list \<Rightarrow> world \<Rightarrow> js_error + world" where
  "run_listeners [] w = Inr w"
| "run_listeners (l # ls) w =
     (case connectionStateListener l w of
        Inl e \<Rightarrow> Inl e
      | Inr w' \<Rightarrow> run_listeners ls w')"

definition step :: "constants \<Rightarrow> event \<Rightarrow> world \<Rightarrow> js_error + world" where
  "step k e w =
     (case e of
        EngineSetsState h s \<Rightarrow>
          if h < length (heap w)
          then Inr (w\<lparr>heap := (heap w)[h := (heap w ! h)\<lparr>connectionState := s\<rparr>]\<rparr>)
          else Inr w
      | EngineEmitsStateChanged h \<Rightarrow>
          if h < length (heap w) then run_listeners (listeners (heap w ! h)) w else Inr w
      | TimerFires p \<Rightarrow>
          if p \<in> fst ` set (timers w) then timerCallback p (clearTimeout p w) else Inr w
      | ProgramCalls c \<Rightarrow> Inr (w\<lparr>props := apply_call c (props w)\<rparr>)
      | ProgramWaits \<Rightarrow>
          (case waitForMediaConnectionConnected k w of
             Inl err \<Rightarrow> Inl err
           | Inr (p, w') \<Rightarrow> Inr w'))"

text \<open>A run ends at the first event in which something throws.\<close>

fun run :: "constants \<Rightarrow> event list \<Rightarrow> world \<Rightarrow> js_error + world" where
  "run k [] w = Inr w"
| "run k (e # es) w = (case step k e w of Inl err \<Rightarrow> Inl err | Inr w' \<Rightarrow> run k es w')"

text \<open>The events that assign to \<^verbatim>\<open>webrtcMediaConnection\<close>.\<close>

fun reassigns :: "event \<Rightarrow> bool" where
  "reassigns (ProgramCalls (SetMediaPeerConnection v)) = True"
| "reassigns (ProgramCalls UnsetPeerConnection) = True"
| "reassigns e = False"

fun keeps_connection :: "event list \<Rightarrow> bool" where
  "keeps_connection [] = True"
| "keeps_connection (e # es) = (\<not> reassigns e \<and> keeps_connection es)"

text \<open>
  An event is quiet for call \<open>p\<close> when it does not assign to
  \<^verbatim>\<open>webrtcMediaConnection\<close> and is neither a \<^verbatim>\<open>CONNECTION_STATE_CHANGED\<close> event
  delivered while the connection is connected nor the firing of the timer of \<open>p\<close>. A run
  is quiet when each of its events is, in the world it is delivered in.
\<close>

definition quiet :: "nat \<Rightarrow> event \<Rightarrow> world \<Rightarrow> bool" where
  "quiet p e w =
     (\<not> reassigns e \<and>
      (case e of
         EngineEmitsStateChanged h \<Rightarrow> isConnected w = Inr False
       | TimerFires q \<Rightarrow> q \<noteq> p
       | _ \<Rightarrow> True))"

fun quiet_run :: "constants \<Rightarrow> nat \<Rightarrow> event list \<Rightarrow> world \<Rightarrow> bool" where
  "quiet_run k p [] w = True"
| "quiet_run k p (e # es) w =
     (quiet p e w \<and> (case step k e w of Inl err \<Rightarrow> False | Inr w' \<Rightarrow> quiet_run k p es w'))"

text \<open>
  Well-formed worlds: a listener is registered at most once on a connection, and every
  registered listener and armed timer belongs to a call that has been made.
\<close>

definition wf_connection :: "nat \<Rightarrow> MediaConnection \<Rightarrow> bool" where
  "wf_connection n c = (distinct (listeners c) \<and> list_all (\<lambda>l. l < n) (listeners c))"

definition wf_world :: "world \<Rightarrow> bool" where
  "wf_world w =
     (list_all (wf_connection (length (promises w))) (heap w) \<and>
      list_all (\<lambda>t. fst t < length (promises w)) (timers w))"

definition initial_world :: "constants \<Rightarrow> world" where
  "initial_world k =
     \<lparr> props = MediaProperties_constructor k, heap = [], timers = [], promises = [] \<rparr>"

text \<open>A media peer connection is set: the attribute holds the connection object \<open>h\<close>.\<close>

definition attached :: "nat \<Rightarrow> world \<Rightarrow> bool" where
  "attached h w = (webrtcMediaConnection (props w) = JObj h \<and> h < length (heap w))"

text \<open>Call \<open>p\<close> is waiting on connection \<open>h\<close>: its promise is pending, its listener is
  registered and its timer is armed with \<^verbatim>\<open>PC_BAIL_TIMEOUT\<close>.\<close>

definition waiting :: "constants \<Rightarrow> nat \<Rightarrow> nat \<Rightarrow> world \<Rightarrow> bool" where
  "waiting k p h w =
     (attached h w \<and> wf_world w \<and> p < length (promises w) \<and> promises w ! p = Pending \<and>
      p \<in> set (listeners (heap w ! h)) \<and> (p, PC_BAIL_TIMEOUT k) \<in> set (timers w))"

text \<open>The wait of call \<open>p\<close> is over: its promise is settled as \<open>v\<close>, its listener is not
  registered on \<open>h\<close> and its timer is not armed.\<close>

definition finished :: "PromiseState \<Rightarrow> nat \<Rightarrow> nat \<Rightarrow> world \<Rightarrow> bool" where
  "finished v p h w =
     (v \<noteq> Pending \<and> h < length (heap w) \<and> p < length (promises w) \<and> promises w ! p = v \<and>
      p \<notin> set (listeners (heap w ! h)) \<and> p \<notin> fst ` set (timers w))"

text \<open>Call \<open>p\<close> is accounted for: a connection is set, and the call is waiting on it or
  its wait is over.\<close>

definition tracked :: "constants \<Rightarrow> nat \<Rightarrow> nat \<Rightarrow> world \<Rightarrow> bool" where
  "tracked k p h w =
     (attached h w \<and> wf_world w \<and>
      (waiting k p h w \<or> finished Resolved p h w \<or> finished Rejected p h w))"

text \<open>Example values: constants, and a world whose instance holds one connection in a given
  state.\<close>

definition example_constants :: constants where
  "example_constants =
     \<lparr> MEETINGS = JStr ''Meetings'', PC_BAIL_TIMEOUT = 8000, QUALITY_LEVELS_HIGH = JStr ''HIGH'' \<rparr>"

definition example_world :: "ConnectionState \<Rightarrow> StatsOutcome \<Rightarrow> world" where
  "example_world s g =
     \<lparr> props = setMediaPeerConnection (JObj 0) (MediaProperties_constructor example_constants),
       heap = [\<lparr> connectionState = s, listeners = [], getStats = g \<rparr>],
       timers = [],
       promises = [] \<rparr>"

text \<open>
  A world with two connection objects, the instance holding the first; the world a call
  that returns leaves behind; and what can be seen of the outcome of a run: the value of
  \<^verbatim>\<open>webrtcMediaConnection\<close>, the states of the connections, their listeners, the armed
  timers and the promises.
\<close>

definition example_world_two :: "ConnectionState \<Rightarrow> ConnectionState \<Rightarrow> world" where
  "example_world_two s0 s1 =
     \<lparr> props = setMediaPeerConnection (JObj 0) (MediaProperties_constructor example_constants),
       heap = [\<lparr> connectionState = s0, listeners = [], getStats = StatsOk [] \<rparr>,
               \<lparr> connectionState = s1, listeners = [], getStats = StatsOk [] \<rparr>],
       timers = [],
       promises = [] \<rparr>"

definition after_call :: "constants \<Rightarrow> world \<Rightarrow> world" where
  "after_call k w =
     (case waitForMediaConnectionConnected k w of Inl e \<Rightarrow> w | Inr (p, w1) \<Rightarrow> w1)"

definition observe ::
  "js_error + world \<Rightarrow>
   js_error + (jsval \<times> ConnectionState list \<times> nat list list \<times> (nat \<times> nat) list \<times> PromiseState list)"
where
  "observe r =
     (case r of
        Inl e \<Rightarrow> Inl e
      | Inr w \<Rightarrow>
          Inr (webrtcMediaConnection (props w), map connectionState (heap w),
               map listeners (heap w), timers w, promises w))"

section \<open>\<^verbatim>\<open>getCurrentConnectionType\<close> (lines 214 to 267)\<close>

text \<open>\<^verbatim>\<open>toUpperCase\<close> and \<^verbatim>\<open>toLowerCase\<close> on the ASCII letters; every other character
  is left as it is.\<close>

definition toUpperCase_char :: "char \<Rightarrow> char" where
  "toUpperCase_char c =
     (let n = (of_char c :: nat) in if 97 \<le> n \<and> n \<le> 122 then char_of (n - 32) else c)"

definition toLowerCase_char :: "char \<Rightarrow> char" where
  "toLowerCase_char c =
     (let n = (of_char c :: nat) in if 65 \<le> n \<and> n \<le> 90 then char_of (n + 32) else c)"

definition toUpperCase :: "string \<Rightarrow> string" where
  "toUpperCase s = map toUpperCase_char s"

definition toLowerCase :: "string \<Rightarrow> string" where
  "toLowerCase s = map toLowerCase_char s"

text \<open>The predicate of the \<^verbatim>\<open>filter\<close> of lines 229 to 231.\<close>

definition isSuccessfulCandidatePair :: "StatsReport \<Rightarrow> bool" where
  "isSuccessfulCandidatePair report =
     (type report = Some ''candidate-pair'' \<and>
      (case state report of None \<Rightarrow> False | Some s \<Rightarrow> toLowerCase s = ''succeeded''))"

text \<open>The \<^verbatim>\<open>find\<close> of lines 237 to 239.\<close>

definition findLocalCandidate :: "StatsReport list \<Rightarrow> StatsReport \<Rightarrow> StatsReport option" where
  "findLocalCandidate allStatsReports pair =
     List.find (\<lambda>report. type report = Some ''local-candidate'' \<and>
                          id_report report = localCandidateId pair) allStatsReports"

text \<open>The value of \<^verbatim>\<open>connectionType\<close> after lines 249 to 255; \<open>None\<close> is
  \<^verbatim>\<open>undefined\<close>.\<close>

definition connectionTypeOf :: "StatsReport \<Rightarrow> string option" where
  "connectionTypeOf localCandidate =
     (if (case relayProtocol localCandidate of None \<Rightarrow> False | Some rp \<Rightarrow> rp \<noteq> [])
      then (case relayProtocol localCandidate of
              None \<Rightarrow> None
            | Some rp \<Rightarrow> Some (''TURN-'' @ toUpperCase rp))
      else map_option toUpperCase (protocol localCandidate))"

text \<open>
  The loop \<^verbatim>\<open>successfulCandidatePairs.some(...)\<close> of lines 236 to 264, which stops at the
  first pair whose callback returns \<^verbatim>\<open>true\<close>; the last argument is the variable
  \<^verbatim>\<open>foundConnectionType\<close>, and the result is its value after the loop.
\<close>

fun some_pair :: "StatsReport list \<Rightarrow> StatsReport list \<Rightarrow> string \<Rightarrow> string" where
  "some_pair allStatsReports [] foundConnectionType = foundConnectionType"
| "some_pair allStatsReports (pair # pairs) foundConnectionType =
     (case findLocalCandidate allStatsReports pair of
        None \<Rightarrow> some_pair allStatsReports pairs foundConnectionType
      | Some localCandidate \<Rightarrow>
          (case connectionTypeOf localCandidate of
             None \<Rightarrow> some_pair allStatsReports pairs foundConnectionType
           | Some connectionType \<Rightarrow>
               if connectionType \<noteq> [] then connectionType
               else some_pair allStatsReports pairs foundConnectionType))"

text \<open>Lines 229 to 266: from the collected reports to the returned string.\<close>

definition classifyConnectionType :: "StatsReport list \<Rightarrow> string" where
  "classifyConnectionType allStatsReports =
     some_pair allStatsReports (filter isSuccessfulCandidatePair allStatsReports) ''unknown''"

text \<open>Lines 218 to 227: \<^verbatim>\<open>allStatsReports\<close> after the \<^verbatim>\<open>try\<close> statement. Everything
  that fails inside it, the dereference of a missing connection included, is caught.\<close>

definition collectStatsReports :: "world \<Rightarrow> StatsReport list" where
  "collectStatsReports w =
     (case connection_of w of
        None \<Rightarrow> []
      | Some (h, c) \<Rightarrow>
          (case getStats c of
             StatsThrows \<Rightarrow> []
           | StatsRejects \<Rightarrow> []
           | StatsOk reports \<Rightarrow> reports))"

text \<open>
  The promise of the \<^verbatim>\<open>async\<close> function: it waits for promise \<open>p\<close> of
  \<^verbatim>\<open>waitForMediaConnectionConnected\<close>, it is fulfilled with a string, or it is rejected
  (with the error thrown, or with the \<^verbatim>\<open>undefined\<close> reason of the promise it awaited).
\<close>

datatype AsyncResult = Awaiting nat | Fulfilled string | RejectedWith "js_error option"

text \<open>Line 216 up to the \<^verbatim>\<open>await\<close>: an exception thrown by the call rejects the promise
  of the \<^verbatim>\<open>async\<close> function.\<close>

definition getCurrentConnectionType_start :: "constants \<Rightarrow> world \<Rightarrow> AsyncResult \<times> world" where
  "getCurrentConnectionType_start k w =
     (case waitForMediaConnectionConnected k w of
        Inl e \<Rightarrow> (RejectedWith (Some e), w)
      | Inr (p, w') \<Rightarrow> (Awaiting p, w'))"

text \<open>The function from the \<^verbatim>\<open>await\<close> of line 216 on, in the world it is resumed in.\<close>

definition getCurrentConnectionType_resume :: "nat \<Rightarrow> world \<Rightarrow> AsyncResult" where
  "getCurrentConnectionType_resume p w =
     (if p < length (promises w)
      then (case promises w ! p of
              Pending \<Rightarrow> Awaiting p
            | Rejected \<Rightarrow> RejectedWith None
            | Resolved \<Rightarrow> Fulfilled (classifyConnectionType (collectStatsReports w)))
      else Awaiting p)"

text \<open>The whole function when nothing else runs between the call and the continuation
  after the \<^verbatim>\<open>await\<close>.\<close>

definition getCurrentConnectionType :: "constants \<Rightarrow> world \<Rightarrow> AsyncResult \<times> world" where
  "getCurrentConnectionType k w =
     (case getCurrentConnectionType_start k w of
        (Awaiting p, w') \<Rightarrow> (getCurrentConnectionType_resume p w', w')
      | (r, w') \<Rightarrow> (r, w'))"

text \<open>Example reports: a successful candidate pair and the relayed local candidate it
  references.\<close>

definition example_reports :: "StatsReport list" where
  "example_reports =
     [\<lparr> type = Some ''candidate-pair'', id_report = Some ''CP1'', state = Some ''Succeeded'',
        localCandidateId = Some ''L1'', relayProtocol = None, protocol = None \<rparr>,
      \<lparr> type = Some ''local-candidate'', id_report = Some ''L1'', state = None,
        localCandidateId = None, relayProtocol = Some ''tls'', protocol = Some ''udp'' \<rparr>]"

section \<open>The classification as the specification words it\<close>

text \<open>
  The type one successful pair yields: the local-candidate report it references must be
  found; the type is \<^verbatim>\<open>TURN-\<close> and the upper-cased relay protocol when the candidate
  has one, otherwise the upper-cased protocol; a type that is missing or empty is not a
  defined type.
\<close>

definition spec_pair_type :: "StatsReport list \<Rightarrow> StatsReport \<Rightarrow> string option" where
  "spec_pair_type reports pair =
     (case List.find (\<lambda>r. type r = Some ''local-candidate'' \<and> id_report r = localCandidateId pair)
             reports of
        None \<Rightarrow> None
      | Some cand \<Rightarrow>
          (case relayProtocol cand of
             Some (x # xs) \<Rightarrow> Some (''TURN-'' @ toUpperCase (x # xs))
           | _ \<Rightarrow>
               (case protocol cand of
                  Some (y # ys) \<Rightarrow> Some (toUpperCase (y # ys))
                | _ \<Rightarrow> None)))"

definition spec_successful_pairs :: "StatsReport list \<Rightarrow> StatsReport list" where
  "spec_successful_pairs reports =
     [r \<leftarrow> reports. type r = Some ''candidate-pair'' \<and>
                    map_option toLowerCase (state r) = Some ''succeeded'']"

definition spec_connection_type :: "StatsReport list \<Rightarrow> string" where
  "spec_connection_type reports =
     (case List.map_filter (spec_pair_type reports) (spec_successful_pairs reports) of
        [] \<Rightarrow> ''unknown''
      | t # ts \<Rightarrow> t)"

section \<open>Lemmas about the run-time state\<close>

subsection \<open>Dereferencing the connection\<close>

lemma nth_list_update_total:
  "(xs[i := x]) ! j = (if i = j \<and> j < length xs then x else xs ! j)"
  by (cases "i < length xs") (auto simp: nth_list_update list_update_beyond)

lemma connection_of_attached:
  "attached h w \<Longrightarrow> connection_of w = Some (h, heap w ! h)"
  by (simp add: attached_def connection_of_def)

lemma isConnected_attached:
  "attached h w \<Longrightarrow> isConnected w = Inr (connectionState (heap w ! h) = Connected)"
  by (simp add: isConnected_def connection_of_attached)

lemma attached_clearTimeout: "attached h (clearTimeout l w) = attached h w"
  by (simp add: attached_def clearTimeout_def)

lemma attached_off: "attached h (off h' l w) = attached h w"
  by (simp add: attached_def off_def)

lemma attached_settle: "attached h (settle v l w) = attached h w"
  by (simp add: attached_def settle_def)

lemma attached_on: "attached h (on h' l w) = attached h w"
  by (simp add: attached_def on_def)

lemmas attached_ops = attached_clearTimeout attached_off attached_settle attached_on

lemma listener_attached:
  "attached h w \<Longrightarrow>
   connectionStateListener l w =
     (if connectionState (heap w ! h) = Connected
      then Inr (resolve l (off h l (clearTimeout l w))) else Inr w)"
  by (simp add: connectionStateListener_def isConnected_attached connection_of_attached
        attached_ops Let_def)

lemma timerCallback_attached:
  "attached h w \<Longrightarrow> timerCallback l w = Inr (reject l (off h l w))"
  by (simp add: timerCallback_def connection_of_attached)

lemma call_connected:
  assumes "attached h w" "connectionState (heap w ! h) = Connected"
  shows "waitForMediaConnectionConnected k w =
           Inr (length (promises w), w\<lparr>promises := promises w @ [Resolved]\<rparr>)"
  using assms by (simp add: waitForMediaConnectionConnected_def isConnected_attached Let_def)

lemma call_not_connected_eq:
  assumes "attached h w" "connectionState (heap w ! h) \<noteq> Connected"
  shows "waitForMediaConnectionConnected k w =
           Inr (length (promises w),
                on h (length (promises w)) (setTimeout (length (promises w)) (PC_BAIL_TIMEOUT k)
                   (w\<lparr>promises := promises w @ [Pending]\<rparr>)))"
  using assms
  by (simp add: waitForMediaConnectionConnected_def isConnected_def executor_def
        connection_of_def attached_def setTimeout_def Let_def)

lemma call_attached_cases:
  assumes "waitForMediaConnectionConnected k w = Inr (p, w1)"
  obtains h where "attached h w"
proof -
  from assms obtain h c where "connection_of w = Some (h, c)"
    by (auto simp: waitForMediaConnectionConnected_def isConnected_def Let_def
          split: option.splits)
  then have "attached h w"
    by (auto simp: connection_of_def attached_def split: jsval.splits if_splits)
  then show ?thesis ..
qed

lemma keeps_attribute:
  "\<not> reassigns (ProgramCalls c) \<Longrightarrow>
   webrtcMediaConnection (apply_call c s) = webrtcMediaConnection s"
  by (cases c)
    (simp_all add: setMediaDirection_def setMediaSettings_def setLocalVideoStream_def
      setLocalAudioStream_def setLocalShareVideoStream_def setLocalShareAudioStream_def
      setRemoteQualityLevel_def setRemoteShare_def setRemoteAudioStream_def
      setRemoteVideoStream_def setVideoDeviceId_def unsetRemoteMedia_def
      unsetRemoteShareStream_def unsetRemoteStreams_def)

subsection \<open>The primitive operations and the three predicates\<close>

lemma wf_connection_mono: "wf_connection n c \<Longrightarrow> n \<le> m \<Longrightarrow> wf_connection m c"
  by (auto simp: wf_connection_def list_all_iff)

lemma wf_connection_remove1:
  "wf_connection n c \<Longrightarrow> wf_connection n (c\<lparr>listeners := remove1 l (listeners c)\<rparr>)"
  by (auto simp: wf_connection_def list_all_iff dest: notin_set_remove1)

lemma wf_world_nth:
  "wf_world w \<Longrightarrow> i < length (heap w) \<Longrightarrow> wf_connection (length (promises w)) (heap w ! i)"
  by (simp add: wf_world_def list_all_length)

lemma wf_world_fresh:
  assumes "wf_world w" "h < length (heap w)"
  shows "distinct (listeners (heap w ! h))"
    and "length (promises w) \<notin> set (listeners (heap w ! h))"
  using wf_world_nth[OF assms] by (auto simp: wf_connection_def list_all_iff)

lemma wf_world_off:
  assumes "wf_world w"
  shows "wf_world (off h l w)"
proof -
  have "wf_connection (length (promises w)) (heap (off h l w) ! i)"
    if "i < length (heap w)" for i
  proof (cases "i = h")
    case True
    with that assms show ?thesis
      by (simp add: off_def wf_world_def list_all_length wf_connection_remove1)
  next
    case False
    with that assms show ?thesis
      by (simp add: off_def wf_world_def list_all_length)
  qed
  with assms show ?thesis
    by (simp add: wf_world_def list_all_length off_def)
qed

lemma wf_world_clearTimeout: "wf_world w \<Longrightarrow> wf_world (clearTimeout l w)"
  by (auto simp: wf_world_def clearTimeout_def list_all_iff)

lemma wf_world_settle: "wf_world w \<Longrightarrow> wf_world (settle v l w)"
  by (auto simp: wf_world_def settle_def)

lemma wf_world_props: "wf_world (w\<lparr>props := s\<rparr>) = wf_world w"
  by (simp add: wf_world_def)

lemma wf_world_set_state:
  "wf_world w \<Longrightarrow> wf_world (w\<lparr>heap := (heap w)[h := (heap w ! h)\<lparr>connectionState := s\<rparr>]\<rparr>)"
  by (auto simp: wf_world_def list_all_length nth_list_update_total wf_connection_def)

lemma wf_world_call:
  assumes "wf_world w" "waitForMediaConnectionConnected k w = Inr (p, w1)"
  shows "wf_world w1"
proof -
  from assms(2) obtain h where att: "attached h w" by (rule call_attached_cases)
  then have h: "h < length (heap w)" by (simp add: attached_def)
  let ?n = "length (promises w)"
  have mono: "wf_connection (Suc ?n) (heap w ! i)" if "i < length (heap w)" for i
    using wf_connection_mono[OF wf_world_nth[OF assms(1) that], of "Suc ?n"] by simp
  from assms(1) have tm: "list_all (\<lambda>t. fst t < Suc ?n) (timers w)"
    by (auto simp: wf_world_def list_all_iff)
  show ?thesis
  proof (cases "connectionState (heap w ! h) = Connected")
    case True
    with assms(2) att have "w1 = w\<lparr>promises := promises w @ [Resolved]\<rparr>"
      by (simp add: call_connected)
    with mono tm show ?thesis by (simp add: wf_world_def list_all_length)
  next
    case False
    with assms(2) att have w1: "w1 = on h ?n (setTimeout ?n (PC_BAIL_TIMEOUT k)
                                 (w\<lparr>promises := promises w @ [Pending]\<rparr>))"
      by (auto simp: call_not_connected_eq)
    have "wf_connection (Suc ?n) (heap w1 ! i)" if "i < length (heap w1)" for i
    proof (cases "i = h")
      case True
      with mono[OF h] h wf_world_fresh[OF assms(1) h] show ?thesis
        by (auto simp: w1 on_def setTimeout_def wf_connection_def list_all_iff)
    next
      case False
      with that mono[of i] show ?thesis
        by (simp add: w1 on_def setTimeout_def)
    qed
    moreover have "list_all (\<lambda>t. fst t < Suc ?n) (timers w1)"
      using tm by (simp add: w1 on_def setTimeout_def)
    moreover have "length (promises w1) = Suc ?n"
      by (simp add: w1 on_def setTimeout_def)
    ultimately show ?thesis by (simp add: wf_world_def list_all_length)
  qed
qed

lemma finished_clearTimeout: "finished v p h w \<Longrightarrow> finished v p h (clearTimeout l w)"
  by (auto simp: finished_def clearTimeout_def)

lemma finished_off: "finished v p h w \<Longrightarrow> finished v p h (off h' l w)"
  by (auto simp: finished_def off_def nth_list_update_total dest: notin_set_remove1)

lemma finished_settle: "finished v p h w \<Longrightarrow> finished v p h (settle v' l w)"
  by (auto simp: finished_def settle_def nth_list_update)

lemma finished_props: "finished v p h (w\<lparr>props := s\<rparr>) = finished v p h w"
  by (simp add: finished_def)

lemma finished_set_state:
  "finished v p h w \<Longrightarrow>
   finished v p h (w\<lparr>heap := (heap w)[h' := (heap w ! h')\<lparr>connectionState := s\<rparr>]\<rparr>)"
  by (auto simp: finished_def nth_list_update_total)

lemma finished_call:
  assumes "finished v p h w" "waitForMediaConnectionConnected k w = Inr (q, w1)"
  shows "finished v p h w1"
proof -
  from assms(2) obtain h' where att: "attached h' w" by (rule call_attached_cases)
  show ?thesis
  proof (cases "connectionState (heap w ! h') = Connected")
    case True
    with assms att show ?thesis
      by (auto simp: call_connected finished_def nth_append)
  next
    case False
    with assms att show ?thesis
      by (auto simp: call_not_connected_eq finished_def on_def setTimeout_def nth_append
            nth_list_update_total split: if_splits)
  qed
qed

lemma waiting_clearTimeout:
  "waiting k p h w \<Longrightarrow> l \<noteq> p \<Longrightarrow> waiting k p h (clearTimeout l w)"
  by (simp add: waiting_def attached_ops wf_world_clearTimeout) (simp add: clearTimeout_def)

lemma waiting_off:
  "waiting k p h w \<Longrightarrow> l \<noteq> p \<Longrightarrow> waiting k p h (off h' l w)"
  by (simp add: waiting_def attached_ops wf_world_off)
     (auto simp: off_def attached_def nth_list_update_total)

lemma waiting_settle:
  "waiting k p h w \<Longrightarrow> l \<noteq> p \<Longrightarrow> waiting k p h (settle v l w)"
  by (simp add: waiting_def attached_ops wf_world_settle) (auto simp: settle_def)

lemma waiting_set_state:
  "waiting k p h w \<Longrightarrow>
   waiting k p h (w\<lparr>heap := (heap w)[h' := (heap w ! h')\<lparr>connectionState := s\<rparr>]\<rparr>)"
  by (simp add: waiting_def wf_world_set_state) (auto simp: attached_def nth_list_update_total)

lemma waiting_call:
  assumes "waiting k p h w" "waitForMediaConnectionConnected k w = Inr (q, w1)"
  shows "waiting k p h w1"
proof -
  from assms(1) have att: "attached h w" and wf: "wf_world w" by (simp_all add: waiting_def)
  from wf_world_call[OF wf assms(2)] have wf1: "wf_world w1" .
  show ?thesis
  proof (cases "connectionState (heap w ! h) = Connected")
    case True
    with assms att wf1 show ?thesis
      by (auto simp: call_connected waiting_def attached_def nth_append)
  next
    case False
    with assms att wf1 show ?thesis
      by (auto simp: call_not_connected_eq waiting_def attached_def on_def setTimeout_def
            nth_append nth_list_update_total)
  qed
qed

lemma waiting_finish:
  assumes "waiting k p h w" "v \<noteq> Pending"
  shows "finished v p h (settle v p (off h p (clearTimeout p w)))"
proof -
  from assms(1) have "distinct (listeners (heap w ! h))"
    by (simp add: waiting_def attached_def wf_world_fresh(1))
  with assms show ?thesis
    by (auto simp: waiting_def attached_def finished_def settle_def off_def clearTimeout_def)
qed

subsection \<open>Steps of a waiting call\<close>

lemma attached_call:
  assumes "waitForMediaConnectionConnected k w = Inr (q, w1)" "attached h w"
  shows "attached h w1"
proof (cases "connectionState (heap w ! h) = Connected")
  case True
  with assms show ?thesis by (auto simp: call_connected attached_def)
next
  case False
  with assms show ?thesis
    by (auto simp: call_not_connected_eq attached_def on_def setTimeout_def)
qed

lemma call_returns:
  "attached h w \<Longrightarrow> \<exists>q w1. waitForMediaConnectionConnected k w = Inr (q, w1)"
  by (cases "connectionState (heap w ! h) = Connected")
     (simp_all add: call_connected call_not_connected_eq)

lemma call_not_connected:
  assumes "wf_world w" "attached h w" "connectionState (heap w ! h) \<noteq> Connected"
  shows "\<exists>w1. waitForMediaConnectionConnected k w = Inr (length (promises w), w1) \<and>
              waiting k (length (promises w)) h w1"
proof -
  let ?w1 = "on h (length (promises w)) (setTimeout (length (promises w)) (PC_BAIL_TIMEOUT k)
                   (w\<lparr>promises := promises w @ [Pending]\<rparr>))"
  have c: "waitForMediaConnectionConnected k w = Inr (length (promises w), ?w1)"
    using assms(2,3) by (rule call_not_connected_eq)
  from wf_world_call[OF assms(1) c] attached_call[OF c assms(2)] assms(2)
  have "waiting k (length (promises w)) h ?w1"
    by (auto simp: waiting_def attached_def on_def setTimeout_def)
  with c show ?thesis by blast
qed

lemma run_listeners_not_connected:
  "isConnected w = Inr False \<Longrightarrow> run_listeners ls w = Inr w"
  by (induction ls) (simp_all add: connectionStateListener_def)

lemma waiting_other_timer:
  assumes "waiting k p h w" "q \<noteq> p"
  shows "waiting k p h (reject q (off h q (clearTimeout q w)))"
  unfolding reject_def
  by (intro waiting_settle waiting_off waiting_clearTimeout assms)

lemma quiet_step:
  assumes "waiting k p h w" "quiet p e w"
  shows "\<exists>w'. step k e w = Inr w' \<and> waiting k p h w'"
proof (cases e)
  case (EngineSetsState h' s)
  with assms(1) waiting_set_state[OF assms(1), of h' s] show ?thesis
    by (simp add: step_def)
next
  case (EngineEmitsStateChanged h')
  with assms show ?thesis
    by (simp add: step_def quiet_def run_listeners_not_connected)
next
  case (TimerFires q)
  with assms(2) have "q \<noteq> p" by (simp add: quiet_def)
  from assms(1) have "attached h (clearTimeout q w)"
    by (simp add: waiting_def attached_ops)
  with waiting_other_timer[OF assms(1) \<open>q \<noteq> p\<close>] assms(1) TimerFires show ?thesis
    by (simp add: step_def timerCallback_attached)
next
  case (ProgramCalls c)
  with assms(2) have "\<not> reassigns (ProgramCalls c)" by (simp add: quiet_def)
  from keeps_attribute[OF this] assms(1) ProgramCalls show ?thesis
    by (simp add: step_def waiting_def attached_def wf_world_props)
next
  case ProgramWaits
  from assms(1) have "attached h w" by (simp add: waiting_def)
  from call_returns[OF this] obtain q w1
    where c: "waitForMediaConnectionConnected k w = Inr (q, w1)" by blast
  with waiting_call[OF assms(1) c] ProgramWaits show ?thesis
    by (simp add: step_def)
qed

lemma quiet_run_waiting:
  "waiting k p h w \<Longrightarrow> quiet_run k p es w \<Longrightarrow> \<exists>w'. run k es w = Inr w' \<and> waiting k p h w'"
proof (induction es arbitrary: w)
  case Nil
  then show ?case by simp
next
  case (Cons e es)
  from Cons.prems obtain w1 where s: "step k e w = Inr w1" and w1: "waiting k p h w1"
    using quiet_step[of k p h w e] by auto
  from Cons.prems s have "quiet_run k p es w1" by simp
  from Cons.IH[OF w1 this] s show ?case by simp
qed


subsection \<open>Every step keeps a call accounted for\<close>

lemma tracked_resolve:
  assumes "tracked k p h w"
  shows "tracked k p h (resolve l (off h l (clearTimeout l w)))" (is "tracked k p h ?w'")
proof -
  from assms have att: "attached h w" and wf: "wf_world w" by (simp_all add: tracked_def)
  then have a: "attached h ?w'" "wf_world ?w'"
    by (simp_all add: resolve_def attached_ops wf_world_settle wf_world_off wf_world_clearTimeout)
  from assms consider "waiting k p h w" "l = p" | "waiting k p h w" "l \<noteq> p"
    | v where "finished v p h w" "v = Resolved \<or> v = Rejected"
    by (auto simp: tracked_def)
  then show ?thesis
  proof cases
    case 1
    then have "finished Resolved p h ?w'"
      unfolding resolve_def by (simp add: waiting_finish)
    with a show ?thesis by (simp add: tracked_def)
  next
    case 2
    then have "waiting k p h ?w'"
      unfolding resolve_def by (intro waiting_settle waiting_off waiting_clearTimeout)
    with a show ?thesis by (simp add: tracked_def)
  next
    case 3
    then have "finished v p h ?w'"
      unfolding resolve_def by (intro finished_settle finished_off finished_clearTimeout)
    with a 3(2) show ?thesis by (auto simp: tracked_def)
  qed
qed

lemma tracked_listener:
  assumes "tracked k p h w"
  shows "\<exists>w'. connectionStateListener l w = Inr w' \<and> tracked k p h w'"
proof -
  from assms have att: "attached h w" by (simp add: tracked_def)
  show ?thesis
    using assms tracked_resolve[OF assms, of l] by (simp add: listener_attached[OF att])
qed

lemma tracked_run_listeners:
  "tracked k p h w \<Longrightarrow> \<exists>w'. run_listeners ls w = Inr w' \<and> tracked k p h w'"
proof (induction ls arbitrary: w)
  case Nil
  then show ?case by simp
next
  case (Cons l ls)
  from tracked_listener[OF Cons.prems] obtain w1
    where l: "connectionStateListener l w = Inr w1" and t: "tracked k p h w1" by blast
  from Cons.IH[OF t] l show ?case by simp
qed

lemma tracked_step:
  assumes "tracked k p h w" "\<not> reassigns e"
  shows "\<exists>w'. step k e w = Inr w' \<and> tracked k p h w'"
proof (cases e)
  case (EngineSetsState h' s)
  let ?w' = "w\<lparr>heap := (heap w)[h' := (heap w ! h')\<lparr>connectionState := s\<rparr>]\<rparr>"
  from assms(1) have "tracked k p h ?w'"
    by (auto simp: tracked_def wf_world_set_state attached_def
          intro: waiting_set_state finished_set_state)
  with assms(1) EngineSetsState show ?thesis by (simp add: step_def)
next
  case (EngineEmitsStateChanged h')
  with assms(1) tracked_run_listeners[OF assms(1)] show ?thesis
    by (simp add: step_def)
next
  case (TimerFires q)
  show ?thesis
  proof (cases "q \<in> fst ` set (timers w)")
    case False
    with assms(1) TimerFires show ?thesis by (simp add: step_def)
  next
    case True
    let ?w' = "reject q (off h q (clearTimeout q w))"
    from assms(1) have att: "attached h w" and wf: "wf_world w" by (simp_all add: tracked_def)
    from att True TimerFires have s: "step k e w = Inr ?w'"
      by (simp add: step_def timerCallback_attached attached_ops)
    have a: "attached h ?w'" "wf_world ?w'"
      using att wf
      by (simp_all add: reject_def attached_ops wf_world_settle wf_world_off wf_world_clearTimeout)
    from assms(1) consider "waiting k p h w" "q = p" | "waiting k p h w" "q \<noteq> p"
      | v where "finished v p h w" "v = Resolved \<or> v = Rejected"
      by (auto simp: tracked_def)
    then have "tracked k p h ?w'"
    proof cases
      case 1
      then have "finished Rejected p h ?w'"
        unfolding reject_def by (simp add: waiting_finish)
      with a show ?thesis by (simp add: tracked_def)
    next
      case 2
      then have "waiting k p h ?w'" by (rule waiting_other_timer)
      with a show ?thesis by (simp add: tracked_def)
    next
      case 3
      then have "finished v p h ?w'"
        unfolding reject_def by (intro finished_settle finished_off finished_clearTimeout)
      with a 3(2) show ?thesis by (auto simp: tracked_def)
    qed
    with s show ?thesis by simp
  qed
next
  case (ProgramCalls c)
  with assms(2) have "\<not> reassigns (ProgramCalls c)" by simp
  from keeps_attribute[OF this] assms(1) ProgramCalls show ?thesis
    by (auto simp: step_def tracked_def waiting_def attached_def wf_world_props finished_props)
next
  case ProgramWaits
  from assms(1) have att: "attached h w" and wf: "wf_world w" by (simp_all add: tracked_def)
  from call_returns[OF att] obtain q w1
    where c: "waitForMediaConnectionConnected k w = Inr (q, w1)" by blast
  from assms(1) have "tracked k p h w1"
    using attached_call[OF c att] wf_world_call[OF wf c]
    by (auto simp: tracked_def dest: waiting_call[OF _ c] finished_call[OF _ c])
  with c ProgramWaits show ?thesis by (simp add: step_def)
qed

lemma tracked_run:
  "tracked k p h w \<Longrightarrow> keeps_connection es \<Longrightarrow> \<exists>w'. run k es w = Inr w' \<and> tracked k p h w'"
proof (induction es arbitrary: w)
  case Nil
  then show ?case by simp
next
  case (Cons e es)
  from Cons.prems have "\<not> reassigns e" "keeps_connection es" by simp_all
  from tracked_step[OF Cons.prems(1) this(1)] obtain w1
    where s: "step k e w = Inr w1" and t: "tracked k p h w1" by blast
  from Cons.IH[OF t \<open>keeps_connection es\<close>] s show ?case by simp
qed

lemma tracked_registered:
  "tracked k p h w \<Longrightarrow> p \<in> set (listeners (heap w ! h)) \<Longrightarrow> waiting k p h w"
  by (auto simp: tracked_def finished_def)

subsection \<open>A state-changed event while connected\<close>

lemma resolved_run_listeners:
  assumes "tracked k p h w" "connectionState (heap w ! h) = Connected"
    "(waiting k p h w \<and> p \<in> set ls) \<or> finished Resolved p h w"
  shows "\<exists>w'. run_listeners ls w = Inr w' \<and> finished Resolved p h w' \<and> tracked k p h w'"
  using assms
proof (induction ls arbitrary: w)
  case Nil
  then show ?case by (auto simp: tracked_def)
next
  case (Cons l ls)
  let ?w1 = "resolve l (off h l (clearTimeout l w))"
  from Cons.prems(1) have att: "attached h w" by (simp add: tracked_def)
  have l: "connectionStateListener l w = Inr ?w1"
    using Cons.prems(2) by (simp add: listener_attached[OF att])
  have t: "tracked k p h ?w1" using Cons.prems(1) by (rule tracked_resolve)
  have c: "connectionState (heap ?w1 ! h) = Connected"
    using Cons.prems(2) att
    by (auto simp: resolve_def settle_def off_def clearTimeout_def attached_def)
  have b: "(waiting k p h ?w1 \<and> p \<in> set ls) \<or> finished Resolved p h ?w1"
  proof (cases "finished Resolved p h w")
    case True
    then have "finished Resolved p h ?w1"
      unfolding resolve_def by (intro finished_settle finished_off finished_clearTimeout)
    then show ?thesis ..
  next
    case False
    with Cons.prems(3) have w: "waiting k p h w" and pin: "p \<in> set (l # ls)" by auto
    show ?thesis
    proof (cases "l = p")
      case True
      with w have "finished Resolved p h ?w1"
        unfolding resolve_def by (simp add: waiting_finish)
      then show ?thesis ..
    next
      case False
      with w have "waiting k p h ?w1"
        unfolding resolve_def by (intro waiting_settle waiting_off waiting_clearTimeout)
      with False pin show ?thesis by auto
    qed
  qed
  from Cons.IH[OF t c b] l show ?case by simp
qed

lemma emit_connected:
  assumes "waiting k p h w" "connectionState (heap w ! h) = Connected"
  shows "\<exists>w'. step k (EngineEmitsStateChanged h) w = Inr w' \<and> finished Resolved p h w' \<and>
              tracked k p h w'"
proof -
  from assms(1) have t: "tracked k p h w" and h: "h < length (heap w)"
    and r: "p \<in> set (listeners (heap w ! h))"
    by (simp_all add: tracked_def waiting_def attached_def)
  from resolved_run_listeners[OF t assms(2), of "listeners (heap w ! h)"] assms(1) r h
  show ?thesis by (simp add: step_def)
qed

subsection \<open>A settled promise stays settled\<close>





subsection \<open>Sizes of the store and of the promise list\<close>

lemma sizes_settle: "length (heap (settle v l w)) = length (heap w)"
  "length (promises (settle v l w)) = length (promises w)"
  by (simp_all add: settle_def)

lemma sizes_off: "length (heap (off h l w)) = length (heap w)" "promises (off h l w) = promises w"
  by (simp_all add: off_def)

lemma sizes_clearTimeout: "heap (clearTimeout l w) = heap w"
  "promises (clearTimeout l w) = promises w"
  by (simp_all add: clearTimeout_def)

lemma sizes_listener:
  "connectionStateListener l w = Inr w' \<Longrightarrow>
   length (heap w') = length (heap w) \<and> length (promises w') = length (promises w)"
  by (auto simp: connectionStateListener_def Let_def resolve_def sizes_settle sizes_off
        sizes_clearTimeout split: sum.splits if_splits option.splits)

lemma sizes_run_listeners:
  "run_listeners ls w = Inr w' \<Longrightarrow>
   length (heap w') = length (heap w) \<and> length (promises w') = length (promises w)"
proof (induction ls arbitrary: w)
  case Nil
  then show ?case by simp
next
  case (Cons l ls)
  then show ?case by (auto split: sum.splits dest!: sizes_listener)
qed

lemma sizes_call:
  "waitForMediaConnectionConnected k w = Inr (p, w') \<Longrightarrow>
   length (heap w') = length (heap w) \<and> length (promises w) \<le> length (promises w')"
  by (auto simp: waitForMediaConnectionConnected_def Let_def executor_def reject_def
        sizes_settle on_def setTimeout_def split: sum.splits if_splits option.splits)

lemma sizes_step:
  assumes "step k e w = Inr w'"
  shows "length (heap w') = length (heap w) \<and> length (promises w) \<le> length (promises w')"
proof (cases e)
  case (EngineSetsState h s)
  with assms show ?thesis by (auto simp: step_def split: if_splits)
next
  case (EngineEmitsStateChanged h)
  with assms show ?thesis by (auto simp: step_def split: if_splits dest: sizes_run_listeners)
next
  case (TimerFires q)
  with assms show ?thesis
    by (auto simp: step_def timerCallback_def reject_def sizes_settle sizes_off
          sizes_clearTimeout split: if_splits option.splits)
next
  case (ProgramCalls c)
  with assms show ?thesis by (auto simp: step_def)
next
  case ProgramWaits
  with assms show ?thesis by (auto simp: step_def split: sum.splits dest: sizes_call)
qed

lemma sizes_run:
  "run k es w = Inr w' \<Longrightarrow>
   length (heap w') = length (heap w) \<and> length (promises w) \<le> length (promises w')"
proof (induction es arbitrary: w)
  case Nil
  then show ?case by simp
next
  case (Cons e es)
  then show ?case by (fastforce split: sum.splits dest: sizes_step)
qed

subsection \<open>Well-formedness is kept by every run\<close>





subsection \<open>A pending promise, whatever was called meanwhile\<close>

lemma resolves_run_listeners:
  assumes "attached h2 w" "connectionState (heap w ! h2) = Connected" "p < length (promises w)"
    "(promises w ! p = Pending \<and> p \<in> set ls) \<or> promises w ! p = Resolved"
  shows "\<exists>w'. run_listeners ls w = Inr w' \<and> promises w' ! p = Resolved"
  using assms
proof (induction ls arbitrary: w)
  case Nil
  then show ?case by simp
next
  case (Cons l ls)
  let ?w1 = "resolve l (off h2 l (clearTimeout l w))"
  have l: "connectionStateListener l w = Inr ?w1"
    using Cons.prems(2) by (simp add: listener_attached[OF Cons.prems(1)])
  have a: "attached h2 ?w1" using Cons.prems(1) by (simp add: resolve_def attached_ops)
  have c: "connectionState (heap ?w1 ! h2) = Connected"
    using Cons.prems(1,2)
    by (auto simp: resolve_def settle_def off_def clearTimeout_def attached_def)
  have n: "p < length (promises ?w1)"
    using Cons.prems(3) by (simp add: resolve_def sizes_settle sizes_off sizes_clearTimeout)
  have b: "(promises ?w1 ! p = Pending \<and> p \<in> set ls) \<or> promises ?w1 ! p = Resolved"
    using Cons.prems(3,4)
    by (auto simp: resolve_def settle_def off_def clearTimeout_def nth_list_update)
  from Cons.IH[OF a c n b] l show ?case by simp
qed

lemma emit_resolves_pending:
  assumes "attached h2 w" "connectionState (heap w ! h2) = Connected" "h < length (heap w)"
    "p < length (promises w)" "promises w ! p = Pending" "p \<in> set (listeners (heap w ! h))"
  shows "\<exists>w'. step k (EngineEmitsStateChanged h) w = Inr w' \<and> promises w' ! p = Resolved"
  using resolves_run_listeners[OF assms(1,2,4), of "listeners (heap w ! h)"] assms(3,5,6)
  by (simp add: step_def)





subsection \<open>Evaluation of the examples\<close>

lemmas world_ops =
  example_world_def example_constants_def MediaProperties_constructor_def
  setMediaPeerConnection_def attached_def wf_world_def wf_connection_def
  waitForMediaConnectionConnected_def connection_of_def isConnected_def Let_def
  executor_def on_def off_def setTimeout_def clearTimeout_def settle_def resolve_def reject_def
  step_def quiet_def timerCallback_def connectionStateListener_def

lemmas two_ops = world_ops example_world_two_def after_call_def observe_def
  unsetPeerConnection_def

lemma example_reports_type: "spec_connection_type example_reports = ''TURN-TLS''"
  by code_simp

section \<open>The attributes\<close>

lemma frame_setMediaDirection:
  "mediaDirection (setMediaDirection d s) = d \<and>
   audioStream (setMediaDirection d s) = audioStream s \<and>
   mediaSettings (setMediaDirection d s) = mediaSettings s \<and>
   webrtcMediaConnection (setMediaDirection d s) = webrtcMediaConnection s \<and>
   remoteAudioStream (setMediaDirection d s) = remoteAudioStream s \<and>
   remoteQualityLevel (setMediaDirection d s) = remoteQualityLevel s \<and>
   remoteShare (setMediaDirection d s) = remoteShare s \<and>
   remoteVideoStream (setMediaDirection d s) = remoteVideoStream s \<and>
   shareVideoStream (setMediaDirection d s) = shareVideoStream s \<and>
   shareAudioStream (setMediaDirection d s) = shareAudioStream s \<and>
   videoDeviceId (setMediaDirection d s) = videoDeviceId s \<and>
   videoStream (setMediaDirection d s) = videoStream s \<and>
   namespace (setMediaDirection d s) = namespace s \<and>
   remoteShareStream (setMediaDirection d s) = remoteShareStream s"
  by (simp add: setMediaDirection_def)

lemma frame_setMediaPeerConnection:
  "webrtcMediaConnection (setMediaPeerConnection v s) = v \<and>
   audioStream (setMediaPeerConnection v s) = audioStream s \<and>
   mediaDirection (setMediaPeerConnection v s) = mediaDirection s \<and>
   mediaSettings (setMediaPeerConnection v s) = mediaSettings s \<and>
   remoteAudioStream (setMediaPeerConnection v s) = remoteAudioStream s \<and>
   remoteQualityLevel (setMediaPeerConnection v s) = remoteQualityLevel s \<and>
   remoteShare (setMediaPeerConnection v s) = remoteShare s \<and>
   remoteVideoStream (setMediaPeerConnection v s) = remoteVideoStream s \<and>
   shareVideoStream (setMediaPeerConnection v s) = shareVideoStream s \<and>
   shareAudioStream (setMediaPeerConnection v s) = shareAudioStream s \<and>
   videoDeviceId (setMediaPeerConnection v s) = videoDeviceId s \<and>
   videoStream (setMediaPeerConnection v s) = videoStream s \<and>
   namespace (setMediaPeerConnection v s) = namespace s \<and>
   remoteShareStream (setMediaPeerConnection v s) = remoteShareStream s"
  by (simp add: setMediaPeerConnection_def)

lemma frame_setLocalVideoStream:
  "videoStream (setLocalVideoStream v s) = v \<and>
   audioStream (setLocalVideoStream v s) = audioStream s \<and>
   mediaDirection (setLocalVideoStream v s) = mediaDirection s \<and>
   mediaSettings (setLocalVideoStream v s) = mediaSettings s \<and>
   webrtcMediaConnection (setLocalVideoStream v s) = webrtcMediaConnection s \<and>
   remoteAudioStream (setLocalVideoStream v s) = remoteAudioStream s \<and>
   remoteQualityLevel (setLocalVideoStream v s) = remoteQualityLevel s \<and>
   remoteShare (setLocalVideoStream v s) = remoteShare s \<and>
   remoteVideoStream (setLocalVideoStream v s) = remoteVideoStream s \<and>
   shareVideoStream (setLocalVideoStream v s) = shareVideoStream s \<and>
   shareAudioStream (setLocalVideoStream v s) = shareAudioStream s \<and>
   videoDeviceId (setLocalVideoStream v s) = videoDeviceId s \<and>
   namespace (setLocalVideoStream v s) = namespace s \<and>
   remoteShareStream (setLocalVideoStream v s) = remoteShareStream s"
  by (simp add: setLocalVideoStream_def)

lemma frame_setLocalAudioStream:
  "audioStream (setLocalAudioStream v s) = v \<and>
   mediaDirection (setLocalAudioStream v s) = mediaDirection s \<and>
   mediaSettings (setLocalAudioStream v s) = mediaSettings s \<and>
   webrtcMediaConnection (setLocalAudioStream v s) = webrtcMediaConnection s \<and>
   remoteAudioStream (setLocalAudioStream v s) = remoteAudioStream s \<and>
   remoteQualityLevel (setLocalAudioStream v s) = remoteQualityLevel s \<and>
   remoteShare (setLocalAudioStream v s) = remoteShare s \<and>
   remoteVideoStream (setLocalAudioStream v s) = remoteVideoStream s \<and>
   shareVideoStream (setLocalAudioStream v s) = shareVideoStream s \<and>
   shareAudioStream (setLocalAudioStream v s) = shareAudioStream s \<and>
   videoDeviceId (setLocalAudioStream v s) = videoDeviceId s \<and>
   videoStream (setLocalAudioStream v s) = videoStream s \<and>
   namespace (setLocalAudioStream v s) = namespace s \<and>
   remoteShareStream (setLocalAudioStream v s) = remoteShareStream s"
  by (simp add: setLocalAudioStream_def)

lemma frame_setLocalShareVideoStream:
  "shareVideoStream (setLocalShareVideoStream v s) = v \<and>
   audioStream (setLocalShareVideoStream v s) = audioStream s \<and>
   mediaDirection (setLocalShareVideoStream v s) = mediaDirection s \<and>
   mediaSettings (setLocalShareVideoStream v s) = mediaSettings s \<and>
   webrtcMediaConnection (setLocalShareVideoStream v s) = webrtcMediaConnection s \<and>
   remoteAudioStream (setLocalShareVideoStream v s) = remoteAudioStream s \<and>
   remoteQualityLevel (setLocalShareVideoStream v s) = remoteQualityLevel s \<and>
   remoteShare (setLocalShareVideoStream v s) = remoteShare s \<and>
   remoteVideoStream (setLocalShareVideoStream v s) = remoteVideoStream s \<and>
   shareAudioStream (setLocalShareVideoStream v s) = shareAudioStream s \<and>
   videoDeviceId (setLocalShareVideoStream v s) = videoDeviceId s \<and>
   videoStream (setLocalShareVideoStream v s) = videoStream s \<and>
   namespace (setLocalShareVideoStream v s) = namespace s \<and>
   remoteShareStream (setLocalShareVideoStream v s) = remoteShareStream s"
  by (simp add: setLocalShareVideoStream_def)

lemma frame_setLocalShareAudioStream:
  "shareAudioStream (setLocalShareAudioStream v s) = v \<and>
   audioStream (setLocalShareAudioStream v s) = audioStream s \<and>
   mediaDirection (setLocalShareAudioStream v s) = mediaDirection s \<and>
   mediaSettings (setLocalShareAudioStream v s) = mediaSettings s \<and>
   webrtcMediaConnection (setLocalShareAudioStream v s) = webrtcMediaConnection s \<and>
   remoteAudioStream (setLocalShareAudioStream v s) = remoteAudioStream s \<and>
   remoteQualityLevel (setLocalShareAudioStream v s) = remoteQualityLevel s \<and>
   remoteShare (setLocalShareAudioStream v s) = remoteShare s \<and>
   remoteVideoStream (setLocalShareAudioStream v s) = remoteVideoStream s \<and>
   shareVideoStream (setLocalShareAudioStream v s) = shareVideoStream s \<and>
   videoDeviceId (setLocalShareAudioStream v s) = videoDeviceId s \<and>
   videoStream (setLocalShareAudioStream v s) = videoStream s \<and>
   namespace (setLocalShareAudioStream v s) = namespace s \<and>
   remoteShareStream (setLocalShareAudioStream v s) = remoteShareStream s"
  by (simp add: setLocalShareAudioStream_def)

lemma frame_setRemoteQualityLevel:
  "remoteQualityLevel (setRemoteQualityLevel v s) = v \<and>
   audioStream (setRemoteQualityLevel v s) = audioStream s \<and>
   mediaDirection (setRemoteQualityLevel v s) = mediaDirection s \<and>
   mediaSettings (setRemoteQualityLevel v s) = mediaSettings s \<and>
   webrtcMediaConnection (setRemoteQualityLevel v s) = webrtcMediaConnection s \<and>
   remoteAudioStream (setRemoteQualityLevel v s) = remoteAudioStream s \<and>
   remoteShare (setRemoteQualityLevel v s) = remoteShare s \<and>
   remoteVideoStream (setRemoteQualityLevel v s) = remoteVideoStream s \<and>
   shareVideoStream (setRemoteQualityLevel v s) = shareVideoStream s \<and>
   shareAudioStream (setRemoteQualityLevel v s) = shareAudioStream s \<and>
   videoDeviceId (setRemoteQualityLevel v s) = videoDeviceId s \<and>
   videoStream (setRemoteQualityLevel v s) = videoStream s \<and>
   namespace (setRemoteQualityLevel v s) = namespace s \<and>
   remoteShareStream (setRemoteQualityLevel v s) = remoteShareStream s"
  by (simp add: setRemoteQualityLevel_def)

lemma frame_setRemoteShare:
  "remoteShare (setRemoteShare v s) = v \<and>
   audioStream (setRemoteShare v s) = audioStream s \<and>
   mediaDirection (setRemoteShare v s) = mediaDirection s \<and>
   mediaSettings (setRemoteShare v s) = mediaSettings s \<and>
   webrtcMediaConnection (setRemoteShare v s) = webrtcMediaConnection s \<and>
   remoteAudioStream (setRemoteShare v s) = remoteAudioStream s \<and>
   remoteQualityLevel (setRemoteShare v s) = remoteQualityLevel s \<and>
   remoteVideoStream (setRemoteShare v s) = remoteVideoStream s \<and>
   shareVideoStream (setRemoteShare v s) = shareVideoStream s \<and>
   shareAudioStream (setRemoteShare v s) = shareAudioStream s \<and>
   videoDeviceId (setRemoteShare v s) = videoDeviceId s \<and>
   videoStream (setRemoteShare v s) = videoStream s \<and>
   namespace (setRemoteShare v s) = namespace s \<and>
   remoteShareStream (setRemoteShare v s) = remoteShareStream s"
  by (simp add: setRemoteShare_def)

lemma frame_setRemoteAudioStream:
  "remoteAudioStream (setRemoteAudioStream v s) = v \<and>
   audioStream (setRemoteAudioStream v s) = audioStream s \<and>
   mediaDirection (setRemoteAudioStream v s) = mediaDirection s \<and>
   mediaSettings (setRemoteAudioStream v s) = mediaSettings s \<and>
   webrtcMediaConnection (setRemoteAudioStream v s) = webrtcMediaConnection s \<and>
   remoteQualityLevel (setRemoteAudioStream v s) = remoteQualityLevel s \<and>
   remoteShare (setRemoteAudioStream v s) = remoteShare s \<and>
   remoteVideoStream (setRemoteAudioStream v s) = remoteVideoStream s \<and>
   shareVideoStream (setRemoteAudioStream v s) = shareVideoStream s \<and>
   shareAudioStream (setRemoteAudioStream v s) = shareAudioStream s \<and>
   videoDeviceId (setRemoteAudioStream v s) = videoDeviceId s \<and>
   videoStream (setRemoteAudioStream v s) = videoStream s \<and>
   namespace (setRemoteAudioStream v s) = namespace s \<and>
   remoteShareStream (setRemoteAudioStream v s) = remoteShareStream s"
  by (simp add: setRemoteAudioStream_def)

lemma frame_setRemoteVideoStream:
  "remoteVideoStream (setRemoteVideoStream v s) = v \<and>
   audioStream (setRemoteVideoStream v s) = audioStream s \<and>
   mediaDirection (setRemoteVideoStream v s) = mediaDirection s \<and>
   mediaSettings (setRemoteVideoStream v s) = mediaSettings s \<and>
   webrtcMediaConnection (setRemoteVideoStream v s) = webrtcMediaConnection s \<and>
   remoteAudioStream (setRemoteVideoStream v s) = remoteAudioStream s \<and>
   remoteQualityLevel (setRemoteVideoStream v s) = remoteQualityLevel s \<and>
   remoteShare (setRemoteVideoStream v s) = remoteShare s \<and>
   shareVideoStream (setRemoteVideoStream v s) = shareVideoStream s \<and>
   shareAudioStream (setRemoteVideoStream v s) = shareAudioStream s \<and>
   videoDeviceId (setRemoteVideoStream v s) = videoDeviceId s \<and>
   videoStream (setRemoteVideoStream v s) = videoStream s \<and>
   namespace (setRemoteVideoStream v s) = namespace s \<and>
   remoteShareStream (setRemoteVideoStream v s) = remoteShareStream s"
  by (simp add: setRemoteVideoStream_def)

lemma frame_setVideoDeviceId:
  "videoDeviceId (setVideoDeviceId v s) = v \<and>
   audioStream (setVideoDeviceId v s) = audioStream s \<and>
   mediaDirection (setVideoDeviceId v s) = mediaDirection s \<and>
   mediaSettings (setVideoDeviceId v s) = mediaSettings s \<and>
   webrtcMediaConnection (setVideoDeviceId v s) = webrtcMediaConnection s \<and>
   remoteAudioStream (setVideoDeviceId v s) = remoteAudioStream s \<and>
   remoteQualityLevel (setVideoDeviceId v s) = remoteQualityLevel s \<and>
   remoteShare (setVideoDeviceId v s) = remoteShare s \<and>
   remoteVideoStream (setVideoDeviceId v s) = remoteVideoStream s \<and>
   shareVideoStream (setVideoDeviceId v s) = shareVideoStream s \<and>
   shareAudioStream (setVideoDeviceId v s) = shareAudioStream s \<and>
   videoStream (setVideoDeviceId v s) = videoStream s \<and>
   namespace (setVideoDeviceId v s) = namespace s \<and>
   remoteShareStream (setVideoDeviceId v s) = remoteShareStream s"
  by (simp add: setVideoDeviceId_def)

lemma frame_unsetPeerConnection:
  "webrtcMediaConnection (unsetPeerConnection s) = JNull \<and>
   audioStream (unsetPeerConnection s) = audioStream s \<and>
   mediaDirection (unsetPeerConnection s) = mediaDirection s \<and>
   mediaSettings (unsetPeerConnection s) = mediaSettings s \<and>
   remoteAudioStream (unsetPeerConnection s) = remoteAudioStream s \<and>
   remoteQualityLevel (unsetPeerConnection s) = remoteQualityLevel s \<and>
   remoteShare (unsetPeerConnection s) = remoteShare s \<and>
   remoteVideoStream (unsetPeerConnection s) = remoteVideoStream s \<and>
   shareVideoStream (unsetPeerConnection s) = shareVideoStream s \<and>
   shareAudioStream (unsetPeerConnection s) = shareAudioStream s \<and>
   videoDeviceId (unsetPeerConnection s) = videoDeviceId s \<and>
   videoStream (unsetPeerConnection s) = videoStream s \<and>
   namespace (unsetPeerConnection s) = namespace s \<and>
   remoteShareStream (unsetPeerConnection s) = remoteShareStream s"
  by (simp add: unsetPeerConnection_def)

text \<open>
  Claim C5. Each of the twelve setters and unsetters writes its own attribute and leaves
  the thirteen others as they were. A setter takes any value and any instance: it has no
  failing branch and does not read another attribute. In particular
  \<^verbatim>\<open>setMediaDirection\<close> stores every combination of the six direction flags.
\<close>

theorem setters_frame:
  "mediaDirection (setMediaDirection d s) = d \<and>
   audioStream (setMediaDirection d s) = audioStream s \<and>
   mediaSettings (setMediaDirection d s) = mediaSettings s \<and>
   webrtcMediaConnection (setMediaDirection d s) = webrtcMediaConnection s \<and>
   remoteAudioStream (setMediaDirection d s) = remoteAudioStream s \<and>
   remoteQualityLevel (setMediaDirection d s) = remoteQualityLevel s \<and>
   remoteShare (setMediaDirection d s) = remoteShare s \<and>
   remoteVideoStream (setMediaDirection d s) = remoteVideoStream s \<and>
   shareVideoStream (setMediaDirection d s) = shareVideoStream s \<and>
   shareAudioStream (setMediaDirection d s) = shareAudioStream s \<and>
   videoDeviceId (setMediaDirection d s) = videoDeviceId s \<and>
   videoStream (setMediaDirection d s) = videoStream s \<and>
   namespace (setMediaDirection d s) = namespace s \<and>
   remoteShareStream (setMediaDirection d s) = remoteShareStream s \<and>
   webrtcMediaConnection (setMediaPeerConnection v s) = v \<and>
   audioStream (setMediaPeerConnection v s) = audioStream s \<and>
   mediaDirection (setMediaPeerConnection v s) = mediaDirection s \<and>
   mediaSettings (setMediaPeerConnection v s) = mediaSettings s \<and>
   remoteAudioStream (setMediaPeerConnection v s) = remoteAudioStream s \<and>
   remoteQualityLevel (setMediaPeerConnection v s) = remoteQualityLevel s \<and>
   remoteShare (setMediaPeerConnection v s) = remoteShare s \<and>
   remoteVideoStream (setMediaPeerConnection v s) = remoteVideoStream s \<and>
   shareVideoStream (setMediaPeerConnection v s) = shareVideoStream s \<and>
   shareAudioStream (setMediaPeerConnection v s) = shareAudioStream s \<and>
   videoDeviceId (setMediaPeerConnection v s) = videoDeviceId s \<and>
   videoStream (setMediaPeerConnection v s) = videoStream s \<and>
   namespace (setMediaPeerConnection v s) = namespace s \<and>
   remoteShareStream (setMediaPeerConnection v s) = remoteShareStream s \<and>
   videoStream (setLocalVideoStream v s) = v \<and>
   audioStream (setLocalVideoStream v s) = audioStream s \<and>
   mediaDirection (setLocalVideoStream v s) = mediaDirection s \<and>
   mediaSettings (setLocalVideoStream v s) = mediaSettings s \<and>
   webrtcMediaConnection (setLocalVideoStream v s) = webrtcMediaConnection s \<and>
   remoteAudioStream (setLocalVideoStream v s) = remoteAudioStream s \<and>
   remoteQualityLevel (setLocalVideoStream v s) = remoteQualityLevel s \<and>
   remoteShare (setLocalVideoStream v s) = remoteShare s \<and>
   remoteVideoStream (setLocalVideoStream v s) = remoteVideoStream s \<and>
   shareVideoStream (setLocalVideoStream v s) = shareVideoStream s \<and>
   shareAudioStream (setLocalVideoStream v s) = shareAudioStream s \<and>
   videoDeviceId (setLocalVideoStream v s) = videoDeviceId s \<and>
   namespace (setLocalVideoStream v s) = namespace s \<and>
   remoteShareStream (setLocalVideoStream v s) = remoteShareStream s \<and>
   audioStream (setLocalAudioStream v s) = v \<and>
   mediaDirection (setLocalAudioStream v s) = mediaDirection s \<and>
   mediaSettings (setLocalAudioStream v s) = mediaSettings s \<and>
   webrtcMediaConnection (setLocalAudioStream v s) = webrtcMediaConnection s \<and>
   remoteAudioStream (setLocalAudioStream v s) = remoteAudioStream s \<and>
   remoteQualityLevel (setLocalAudioStream v s) = remoteQualityLevel s \<and>
   remoteShare (setLocalAudioStream v s) = remoteShare s \<and>
   remoteVideoStream (setLocalAudioStream v s) = remoteVideoStream s \<and>
   shareVideoStream (setLocalAudioStream v s) = shareVideoStream s \<and>
   shareAudioStream (setLocalAudioStream v s) = shareAudioStream s \<and>
   videoDeviceId (setLocalAudioStream v s) = videoDeviceId s \<and>
   videoStream (setLocalAudioStream v s) = videoStream s \<and>
   namespace (setLocalAudioStream v s) = namespace s \<and>
   remoteShareStream (setLocalAudioStream v s) = remoteShareStream s \<and>
   shareVideoStream (setLocalShareVideoStream v s) = v \<and>
   audioStream (setLocalShareVideoStream v s) = audioStream s \<and>
   mediaDirection (setLocalShareVideoStream v s) = mediaDirection s \<and>
   mediaSettings (setLocalShareVideoStream v s) = mediaSettings s \<and>
   webrtcMediaConnection (setLocalShareVideoStream v s) = webrtcMediaConnection s \<and>
   remoteAudioStream (setLocalShareVideoStream v s) = remoteAudioStream s \<and>
   remoteQualityLevel (setLocalShareVideoStream v s) = remoteQualityLevel s \<and>
   remoteShare (setLocalShareVideoStream v s) = remoteShare s \<and>
   remoteVideoStream (setLocalShareVideoStream v s) = remoteVideoStream s \<and>
   shareAudioStream (setLocalShareVideoStream v s) = shareAudioStream s \<and>
   videoDeviceId (setLocalShareVideoStream v s) = videoDeviceId s \<and>
   videoStream (setLocalShareVideoStream v s) = videoStream s \<and>
   namespace (setLocalShareVideoStream v s) = namespace s \<and>
   remoteShareStream (setLocalShareVideoStream v s) = remoteShareStream s \<and>
   shareAudioStream (setLocalShareAudioStream v s) = v \<and>
   audioStream (setLocalShareAudioStream v s) = audioStream s \<and>
   mediaDirection (setLocalShareAudioStream v s) = mediaDirection s \<and>
   mediaSettings (setLocalShareAudioStream v s) = mediaSettings s \<and>
   webrtcMediaConnection (setLocalShareAudioStream v s) = webrtcMediaConnection s \<and>
   remoteAudioStream (setLocalShareAudioStream v s) = remoteAudioStream s \<and>
   remoteQualityLevel (setLocalShareAudioStream v s) = remoteQualityLevel s \<and>
   remoteShare (setLocalShareAudioStream v s) = remoteShare s \<and>
   remoteVideoStream (setLocalShareAudioStream v s) = remoteVideoStream s \<and>
   shareVideoStream (setLocalShareAudioStream v s) = shareVideoStream s \<and>
   videoDeviceId (setLocalShareAudioStream v s) = videoDeviceId s \<and>
   videoStream (setLocalShareAudioStream v s) = videoStream s \<and>
   namespace (setLocalShareAudioStream v s) = namespace s \<and>
   remoteShareStream (setLocalShareAudioStream v s) = remoteShareStream s \<and>
   remoteQualityLevel (setRemoteQualityLevel v s) = v \<and>
   audioStream (setRemoteQualityLevel v s) = audioStream s \<and>
   mediaDirection (setRemoteQualityLevel v s) = mediaDirection s \<and>
   mediaSettings (setRemoteQualityLevel v s) = mediaSettings s \<and>
   webrtcMediaConnection (setRemoteQualityLevel v s) = webrtcMediaConnection s \<and>
   remoteAudioStream (setRemoteQualityLevel v s) = remoteAudioStream s \<and>
   remoteShare (setRemoteQualityLevel v s) = remoteShare s \<and>
   remoteVideoStream (setRemoteQualityLevel v s) = remoteVideoStream s \<and>
   shareVideoStream (setRemoteQualityLevel v s) = shareVideoStream s \<and>
   shareAudioStream (setRemoteQualityLevel v s) = shareAudioStream s \<and>
   videoDeviceId (setRemoteQualityLevel v s) = videoDeviceId s \<and>
   videoStream (setRemoteQualityLevel v s) = videoStream s \<and>
   namespace (setRemoteQualityLevel v s) = namespace s \<and>
   remoteShareStream (setRemoteQualityLevel v s) = remoteShareStream s \<and>
   remoteShare (setRemoteShare v s) = v \<and>
   audioStream (setRemoteShare v s) = audioStream s \<and>
   mediaDirection (setRemoteShare v s) = mediaDirection s \<and>
   mediaSettings (setRemoteShare v s) = mediaSettings s \<and>
   webrtcMediaConnection (setRemoteShare v s) = webrtcMediaConnection s \<and>
   remoteAudioStream (setRemoteShare v s) = remoteAudioStream s \<and>
   remoteQualityLevel (setRemoteShare v s) = remoteQualityLevel s \<and>
   remoteVideoStream (setRemoteShare v s) = remoteVideoStream s \<and>
   shareVideoStream (setRemoteShare v s) = shareVideoStream s \<and>
   shareAudioStream (setRemoteShare v s) = shareAudioStream s \<and>
   videoDeviceId (setRemoteShare v s) = videoDeviceId s \<and>
   videoStream (setRemoteShare v s) = videoStream s \<and>
   namespace (setRemoteShare v s) = namespace s \<and>
   remoteShareStream (setRemoteShare v s) = remoteShareStream s \<and>
   remoteAudioStream (setRemoteAudioStream v s) = v \<and>
   audioStream (setRemoteAudioStream v s) = audioStream s \<and>
   mediaDirection (setRemoteAudioStream v s) = mediaDirection s \<and>
   mediaSettings (setRemoteAudioStream v s) = mediaSettings s \<and>
   webrtcMediaConnection (setRemoteAudioStream v s) = webrtcMediaConnection s \<and>
   remoteQualityLevel (setRemoteAudioStream v s) = remoteQualityLevel s \<and>
   remoteShare (setRemoteAudioStream v s) = remoteShare s \<and>
   remoteVideoStream (setRemoteAudioStream v s) = remoteVideoStream s \<and>
   shareVideoStream (setRemoteAudioStream v s) = shareVideoStream s \<and>
   shareAudioStream (setRemoteAudioStream v s) = shareAudioStream s \<and>
   videoDeviceId (setRemoteAudioStream v s) = videoDeviceId s \<and>
   videoStream (setRemoteAudioStream v s) = videoStream s \<and>
   namespace (setRemoteAudioStream v s) = namespace s \<and>
   remoteShareStream (setRemoteAudioStream v s) = remoteShareStream s \<and>
   remoteVideoStream (setRemoteVideoStream v s) = v \<and>
   audioStream (setRemoteVideoStream v s) = audioStream s \<and>
   mediaDirection (setRemoteVideoStream v s) = mediaDirection s \<and>
   mediaSettings (setRemoteVideoStream v s) = mediaSettings s \<and>
   webrtcMediaConnection (setRemoteVideoStream v s) = webrtcMediaConnection s \<and>
   remoteAudioStream (setRemoteVideoStream v s) = remoteAudioStream s \<and>
   remoteQualityLevel (setRemoteVideoStream v s) = remoteQualityLevel s \<and>
   remoteShare (setRemoteVideoStream v s) = remoteShare s \<and>
   shareVideoStream (setRemoteVideoStream v s) = shareVideoStream s \<and>
   shareAudioStream (setRemoteVideoStream v s) = shareAudioStream s \<and>
   videoDeviceId (setRemoteVideoStream v s) = videoDeviceId s \<and>
   videoStream (setRemoteVideoStream v s) = videoStream s \<and>
   namespace (setRemoteVideoStream v s) = namespace s \<and>
   remoteShareStream (setRemoteVideoStream v s) = remoteShareStream s \<and>
   videoDeviceId (setVideoDeviceId v s) = v \<and>
   audioStream (setVideoDeviceId v s) = audioStream s \<and>
   mediaDirection (setVideoDeviceId v s) = mediaDirection s \<and>
   mediaSettings (setVideoDeviceId v s) = mediaSettings s \<and>
   webrtcMediaConnection (setVideoDeviceId v s) = webrtcMediaConnection s \<and>
   remoteAudioStream (setVideoDeviceId v s) = remoteAudioStream s \<and>
   remoteQualityLevel (setVideoDeviceId v s) = remoteQualityLevel s \<and>
   remoteShare (setVideoDeviceId v s) = remoteShare s \<and>
   remoteVideoStream (setVideoDeviceId v s) = remoteVideoStream s \<and>
   shareVideoStream (setVideoDeviceId v s) = shareVideoStream s \<and>
   shareAudioStream (setVideoDeviceId v s) = shareAudioStream s \<and>
   videoStream (setVideoDeviceId v s) = videoStream s \<and>
   namespace (setVideoDeviceId v s) = namespace s \<and>
   remoteShareStream (setVideoDeviceId v s) = remoteShareStream s \<and>
   webrtcMediaConnection (unsetPeerConnection s) = JNull \<and>
   audioStream (unsetPeerConnection s) = audioStream s \<and>
   mediaDirection (unsetPeerConnection s) = mediaDirection s \<and>
   mediaSettings (unsetPeerConnection s) = mediaSettings s \<and>
   remoteAudioStream (unsetPeerConnection s) = remoteAudioStream s \<and>
   remoteQualityLevel (unsetPeerConnection s) = remoteQualityLevel s \<and>
   remoteShare (unsetPeerConnection s) = remoteShare s \<and>
   remoteVideoStream (unsetPeerConnection s) = remoteVideoStream s \<and>
   shareVideoStream (unsetPeerConnection s) = shareVideoStream s \<and>
   shareAudioStream (unsetPeerConnection s) = shareAudioStream s \<and>
   videoDeviceId (unsetPeerConnection s) = videoDeviceId s \<and>
   videoStream (unsetPeerConnection s) = videoStream s \<and>
   namespace (unsetPeerConnection s) = namespace s \<and>
   remoteShareStream (unsetPeerConnection s) = remoteShareStream s \<and>
   mediaDirection
     (setMediaDirection
        \<lparr> sendAudio = sa, sendVideo = sv, sendShare = ss,
          receiveAudio = ra, receiveVideo = rv, receiveShare = rs \<rparr> s) =
     \<lparr> sendAudio = sa, sendVideo = sv, sendShare = ss,
       receiveAudio = ra, receiveVideo = rv, receiveShare = rs \<rparr>"
  by (simp add: frame_setMediaDirection frame_setMediaPeerConnection frame_setLocalVideoStream frame_setLocalAudioStream frame_setLocalShareVideoStream frame_setLocalShareAudioStream frame_setRemoteQualityLevel frame_setRemoteShare frame_setRemoteAudioStream frame_setRemoteVideoStream frame_setVideoDeviceId frame_unsetPeerConnection)

text \<open>
  Claim C6. A media direction is six booleans, each of which can be chosen freely, and
  nothing else. The constructor sets the six flags to false, the connection handle and the
  four local stream handles to \<^verbatim>\<open>null\<close>, the three remote stream handles to
  \<^verbatim>\<open>undefined\<close>, \<^verbatim>\<open>remoteQualityLevel\<close> to \<^verbatim>\<open>QUALITY_LEVELS.HIGH\<close> and
  \<^verbatim>\<open>mediaSettings\<close> to the empty object.
\<close>

theorem constructor_initial_state:
  "mediaDirection (MediaProperties_constructor k) =
     \<lparr> sendAudio = False, sendVideo = False, sendShare = False,
       receiveAudio = False, receiveVideo = False, receiveShare = False \<rparr> \<and>
   webrtcMediaConnection (MediaProperties_constructor k) = JNull \<and>
   videoStream (MediaProperties_constructor k) = JNull \<and>
   audioStream (MediaProperties_constructor k) = JNull \<and>
   shareVideoStream (MediaProperties_constructor k) = JNull \<and>
   shareAudioStream (MediaProperties_constructor k) = JNull \<and>
   remoteShare (MediaProperties_constructor k) = JUndefined \<and>
   remoteAudioStream (MediaProperties_constructor k) = JUndefined \<and>
   remoteVideoStream (MediaProperties_constructor k) = JUndefined \<and>
   remoteQualityLevel (MediaProperties_constructor k) = QUALITY_LEVELS_HIGH k \<and>
   mediaSettings (MediaProperties_constructor k) = Map.empty \<and>
   (d :: MediaDirection) =
     \<lparr> sendAudio = sendAudio d, sendVideo = sendVideo d, sendShare = sendShare d,
       receiveAudio = receiveAudio d, receiveVideo = receiveVideo d,
       receiveShare = receiveShare d \<rparr> \<and>
   sendAudio \<lparr> sendAudio = sa, sendVideo = sv, sendShare = ss,
               receiveAudio = ra, receiveVideo = rv, receiveShare = rs \<rparr> = sa \<and>
   sendVideo \<lparr> sendAudio = sa, sendVideo = sv, sendShare = ss,
               receiveAudio = ra, receiveVideo = rv, receiveShare = rs \<rparr> = sv \<and>
   sendShare \<lparr> sendAudio = sa, sendVideo = sv, sendShare = ss,
               receiveAudio = ra, receiveVideo = rv, receiveShare = rs \<rparr> = ss \<and>
   receiveAudio \<lparr> sendAudio = sa, sendVideo = sv, sendShare = ss,
                  receiveAudio = ra, receiveVideo = rv, receiveShare = rs \<rparr> = ra \<and>
   receiveVideo \<lparr> sendAudio = sa, sendVideo = sv, sendShare = ss,
                  receiveAudio = ra, receiveVideo = rv, receiveShare = rs \<rparr> = rv \<and>
   receiveShare \<lparr> sendAudio = sa, sendVideo = sv, sendShare = ss,
                  receiveAudio = ra, receiveVideo = rv, receiveShare = rs \<rparr> = rs"
  by (simp add: MediaProperties_constructor_def)

lemma hasLocalShareStream_iff:
  "hasLocalShareStream s = (truthy (shareAudioStream s) \<or> truthy (shareVideoStream s))"
  by (simp add: hasLocalShareStream_def js_not_not_def js_or_def)

text \<open>
  Claim C7. \<^verbatim>\<open>hasLocalShareStream\<close> returns true exactly when \<^verbatim>\<open>shareAudioStream\<close>
  or \<^verbatim>\<open>shareVideoStream\<close> is truthy. It returns false for a new instance, and after
  both share setters have been called with \<^verbatim>\<open>null\<close> or \<^verbatim>\<open>undefined\<close>, in either
  order.
\<close>

theorem hasLocalShareStream_truthy:
  "hasLocalShareStream s = (truthy (shareAudioStream s) \<or> truthy (shareVideoStream s)) \<and>
   hasLocalShareStream (MediaProperties_constructor k) = False \<and>
   hasLocalShareStream (setLocalShareAudioStream JNull (setLocalShareVideoStream JNull s)) = False \<and>
   hasLocalShareStream
     (setLocalShareAudioStream JUndefined (setLocalShareVideoStream JUndefined s)) = False \<and>
   hasLocalShareStream
     (setLocalShareAudioStream JNull (setLocalShareVideoStream JUndefined s)) = False \<and>
   hasLocalShareStream
     (setLocalShareAudioStream JUndefined (setLocalShareVideoStream JNull s)) = False \<and>
   hasLocalShareStream (setLocalShareVideoStream JNull (setLocalShareAudioStream JNull s)) = False \<and>
   hasLocalShareStream
     (setLocalShareVideoStream JUndefined (setLocalShareAudioStream JUndefined s)) = False"
  by (simp add: hasLocalShareStream_iff MediaProperties_constructor_def
        setLocalShareAudioStream_def setLocalShareVideoStream_def)

text \<open>
  Claim C8. \<^verbatim>\<open>unsetRemoteStreams\<close> sets \<^verbatim>\<open>remoteAudioStream\<close> and
  \<^verbatim>\<open>remoteVideoStream\<close> to \<^verbatim>\<open>null\<close> and leaves \<^verbatim>\<open>remoteShare\<close> as it was, also
  right after \<^verbatim>\<open>setRemoteShare\<close>: \<^verbatim>\<open>unsetRemoteShareStream\<close> assigns
  \<^verbatim>\<open>null\<close> to the property \<^verbatim>\<open>remoteShareStream\<close> and to nothing else.
\<close>

theorem unsetRemoteStreams_keeps_remoteShare:
  "remoteAudioStream (unsetRemoteStreams s) = JNull \<and>
   remoteVideoStream (unsetRemoteStreams s) = JNull \<and>
   remoteShare (unsetRemoteStreams s) = remoteShare s \<and>
   remoteShareStream (unsetRemoteStreams s) = JNull \<and>
   remoteShare (unsetRemoteStreams (setRemoteShare v s)) = v \<and>
   unsetRemoteShareStream s = s\<lparr>remoteShareStream := JNull\<rparr>"
  by (simp add: unsetRemoteStreams_def unsetRemoteShareStream_def unsetRemoteMedia_def
        setRemoteShare_def)

text \<open>
  Claim C10. \<^verbatim>\<open>getVideoDeviceId\<close> returns \<^verbatim>\<open>null\<close> whenever the stored
  \<^verbatim>\<open>videoDeviceId\<close> is falsy, and the stored value otherwise. After
  \<^verbatim>\<open>setVideoDeviceId('')\<close> it returns \<^verbatim>\<open>null\<close>, not the empty string, and for a new
  instance it returns \<^verbatim>\<open>null\<close>.
\<close>

theorem getVideoDeviceId_falsy:
  "(\<not> truthy (videoDeviceId s) \<longrightarrow> getVideoDeviceId s = JNull) \<and>
   (truthy (videoDeviceId s) \<longrightarrow> getVideoDeviceId s = videoDeviceId s) \<and>
   getVideoDeviceId (setVideoDeviceId (JStr []) s) = JNull \<and>
   getVideoDeviceId (MediaProperties_constructor k) = JNull"
  by (simp add: getVideoDeviceId_def js_or_def setVideoDeviceId_def MediaProperties_constructor_def)

text \<open>
  The theorem at an instance that stores the empty string and at one that stores a
  non-empty identifier.
\<close>

theorem getVideoDeviceId_falsy_witness:
  "\<not> truthy (videoDeviceId (setVideoDeviceId (JStr []) (MediaProperties_constructor example_constants))) \<and>
   getVideoDeviceId (setVideoDeviceId (JStr []) (MediaProperties_constructor example_constants)) = JNull \<and>
   truthy (videoDeviceId (setVideoDeviceId (JStr ''cam'') (MediaProperties_constructor example_constants))) \<and>
   getVideoDeviceId (setVideoDeviceId (JStr ''cam'') (MediaProperties_constructor example_constants)) =
     JStr ''cam''"
proof -
  let ?a = "setVideoDeviceId (JStr []) (MediaProperties_constructor example_constants)"
  let ?b = "setVideoDeviceId (JStr ''cam'') (MediaProperties_constructor example_constants)"
  have a: "\<not> truthy (videoDeviceId ?a)" by (simp add: setVideoDeviceId_def)
  have b: "truthy (videoDeviceId ?b)" "videoDeviceId ?b = JStr ''cam''"
    by (simp_all add: setVideoDeviceId_def)
  from getVideoDeviceId_falsy[of ?a example_constants] a
  have "getVideoDeviceId ?a = JNull" by blast
  moreover from getVideoDeviceId_falsy[of ?b example_constants] b
  have "getVideoDeviceId ?b = JStr ''cam''" by simp
  ultimately show ?thesis using a b by simp
qed

section \<open>Waiting for the connection\<close>

text \<open>
  Claim C1, as amended. Let a media peer connection \<open>h\<close> be set. When the connection is
  connected, \<^verbatim>\<open>waitForMediaConnectionConnected\<close> returns a promise that is already
  resolved, and the listeners of the connection and the armed timers are what they were.
  Otherwise the promise is pending and the listener of the call is registered on \<open>h\<close>.
  They stay so during any quiet run. When neither \<^verbatim>\<open>setMediaPeerConnection\<close> nor
  \<^verbatim>\<open>unsetPeerConnection\<close> is called meanwhile, a \<^verbatim>\<open>CONNECTION_STATE_CHANGED\<close> event on
  \<open>h\<close> that the listener observes (it is still registered) while the connection is
  connected resolves the promise. Whatever is called meanwhile, such an event resolves the
  promise when the promise is still pending and the connection then held in
  \<^verbatim>\<open>webrtcMediaConnection\<close> is connected.
\<close>

theorem wait_resolves:
  assumes "wf_world w" "attached h w"
  shows "(connectionState (heap w ! h) = Connected \<longrightarrow>
            (\<exists>w1. waitForMediaConnectionConnected k w = Inr (length (promises w), w1) \<and>
                  promises w1 ! length (promises w) = Resolved \<and>
                  heap w1 = heap w \<and> timers w1 = timers w \<and> props w1 = props w)) \<and>
         (connectionState (heap w ! h) \<noteq> Connected \<longrightarrow>
            (\<exists>w1. waitForMediaConnectionConnected k w = Inr (length (promises w), w1) \<and>
                  promises w1 ! length (promises w) = Pending \<and>
                  length (promises w) \<in> set (listeners (heap w1 ! h)) \<and>
                  (\<forall>es. quiet_run k (length (promises w)) es w1 \<longrightarrow>
                     (\<exists>w2. run k es w1 = Inr w2 \<and>
                           promises w2 ! length (promises w) = Pending \<and>
                           length (promises w) \<in> set (listeners (heap w2 ! h)))) \<and>
                  (\<forall>es. keeps_connection es \<longrightarrow>
                     (\<exists>w2. run k es w1 = Inr w2 \<and>
                           (length (promises w) \<in> set (listeners (heap w2 ! h)) \<and>
                            connectionState (heap w2 ! h) = Connected \<longrightarrow>
                              (\<exists>w3. step k (EngineEmitsStateChanged h) w2 = Inr w3 \<and>
                                    promises w3 ! length (promises w) = Resolved)))) \<and>
                  (\<forall>es w2 h2.
                     run k es w1 = Inr w2 \<and> attached h2 w2 \<and>
                     connectionState (heap w2 ! h2) = Connected \<and>
                     promises w2 ! length (promises w) = Pending \<and>
                     length (promises w) \<in> set (listeners (heap w2 ! h)) \<longrightarrow>
                       (\<exists>w3. step k (EngineEmitsStateChanged h) w2 = Inr w3 \<and>
                             promises w3 ! length (promises w) = Resolved))))"
proof (intro conjI impI)
  assume "connectionState (heap w ! h) = Connected"
  with assms(2) show "\<exists>w1. waitForMediaConnectionConnected k w = Inr (length (promises w), w1) \<and>
      promises w1 ! length (promises w) = Resolved \<and>
      heap w1 = heap w \<and> timers w1 = timers w \<and> props w1 = props w"
    by (simp add: call_connected)
next
  let ?p = "length (promises w)"
  assume "connectionState (heap w ! h) \<noteq> Connected"
  from call_not_connected[OF assms this] obtain w1
    where c: "waitForMediaConnectionConnected k w = Inr (?p, w1)" and w1: "waiting k ?p h w1"
    by blast
  from w1 have t1: "tracked k ?p h w1" by (simp add: tracked_def waiting_def)
  have before: "\<exists>w2. run k es w1 = Inr w2 \<and> promises w2 ! ?p = Pending \<and>
                     ?p \<in> set (listeners (heap w2 ! h))"
    if "quiet_run k ?p es w1" for es
    using quiet_run_waiting[OF w1 that] by (auto simp: waiting_def)
  have kept: "\<exists>w2. run k es w1 = Inr w2 \<and>
             (?p \<in> set (listeners (heap w2 ! h)) \<and> connectionState (heap w2 ! h) = Connected \<longrightarrow>
                (\<exists>w3. step k (EngineEmitsStateChanged h) w2 = Inr w3 \<and>
                      promises w3 ! ?p = Resolved))"
    if keeps: "keeps_connection es" for es
  proof -
    from tracked_run[OF t1 keeps] obtain w2
      where r: "run k es w1 = Inr w2" and t2: "tracked k ?p h w2" by blast
    have "\<exists>w3. step k (EngineEmitsStateChanged h) w2 = Inr w3 \<and> promises w3 ! ?p = Resolved"
      if "?p \<in> set (listeners (heap w2 ! h))" "connectionState (heap w2 ! h) = Connected"
      using emit_connected[OF tracked_registered[OF t2 that(1)] that(2)]
      by (auto simp: finished_def)
    with r show ?thesis by blast
  qed
  have any: "\<exists>w3. step k (EngineEmitsStateChanged h) w2 = Inr w3 \<and> promises w3 ! ?p = Resolved"
    if r: "run k es w1 = Inr w2" and a: "attached h2 w2"
      and co: "connectionState (heap w2 ! h2) = Connected"
      and pe: "promises w2 ! ?p = Pending" and re: "?p \<in> set (listeners (heap w2 ! h))"
    for es w2 h2
  proof -
    from w1 have "h < length (heap w1)" "?p < length (promises w1)"
      by (simp_all add: waiting_def attached_def)
    with sizes_run[OF r] have "h < length (heap w2)" "?p < length (promises w2)" by simp_all
    from emit_resolves_pending[OF a co this pe re] show ?thesis .
  qed
  from w1 have P: "promises w1 ! ?p = Pending" "?p \<in> set (listeners (heap w1 ! h))"
    by (simp_all add: waiting_def)
  have B: "\<forall>es. quiet_run k ?p es w1 \<longrightarrow>
         (\<exists>w2. run k es w1 = Inr w2 \<and> promises w2 ! ?p = Pending \<and>
               ?p \<in> set (listeners (heap w2 ! h)))"
    using before by blast
  have K: "\<forall>es. keeps_connection es \<longrightarrow>
         (\<exists>w2. run k es w1 = Inr w2 \<and>
               (?p \<in> set (listeners (heap w2 ! h)) \<and> connectionState (heap w2 ! h) = Connected \<longrightarrow>
                  (\<exists>w3. step k (EngineEmitsStateChanged h) w2 = Inr w3 \<and>
                        promises w3 ! ?p = Resolved)))"
    using kept by blast
  have A: "\<forall>es w2 h2.
         run k es w1 = Inr w2 \<and> attached h2 w2 \<and> connectionState (heap w2 ! h2) = Connected \<and>
         promises w2 ! ?p = Pending \<and> ?p \<in> set (listeners (heap w2 ! h)) \<longrightarrow>
           (\<exists>w3. step k (EngineEmitsStateChanged h) w2 = Inr w3 \<and> promises w3 ! ?p = Resolved)"
    using any by blast
  show "\<exists>w1. waitForMediaConnectionConnected k w = Inr (?p, w1) \<and>
      promises w1 ! ?p = Pending \<and> ?p \<in> set (listeners (heap w1 ! h)) \<and>
      (\<forall>es. quiet_run k ?p es w1 \<longrightarrow>
         (\<exists>w2. run k es w1 = Inr w2 \<and> promises w2 ! ?p = Pending \<and>
               ?p \<in> set (listeners (heap w2 ! h)))) \<and>
      (\<forall>es. keeps_connection es \<longrightarrow>
         (\<exists>w2. run k es w1 = Inr w2 \<and>
               (?p \<in> set (listeners (heap w2 ! h)) \<and> connectionState (heap w2 ! h) = Connected \<longrightarrow>
                  (\<exists>w3. step k (EngineEmitsStateChanged h) w2 = Inr w3 \<and>
                        promises w3 ! ?p = Resolved)))) \<and>
      (\<forall>es w2 h2.
         run k es w1 = Inr w2 \<and> attached h2 w2 \<and> connectionState (heap w2 ! h2) = Connected \<and>
         promises w2 ! ?p = Pending \<and> ?p \<in> set (listeners (heap w2 ! h)) \<longrightarrow>
           (\<exists>w3. step k (EngineEmitsStateChanged h) w2 = Inr w3 \<and> promises w3 ! ?p = Resolved))"
    by (intro exI[of _ w1] conjI c P B K A)
qed

text \<open>
  The theorem in a world whose connection is connecting: the call, then the engine
  connects, then the event resolves the promise. In a world whose connection is
  connected: no listener and no timer. And in a world with two connections: the call,
  then the program sets the second connection, which connects, and an event on the first
  resolves the pending promise.
\<close>

theorem wait_resolves_witness:
  "wf_world (example_world Connecting (StatsOk [])) \<and>
   attached 0 (example_world Connecting (StatsOk [])) \<and>
   (\<exists>w1 w2 w3.
      waitForMediaConnectionConnected example_constants (example_world Connecting (StatsOk [])) =
        Inr (0, w1) \<and>
      promises w1 ! 0 = Pending \<and>
      quiet_run example_constants 0 [EngineSetsState 0 Connected] w1 \<and>
      run example_constants [EngineSetsState 0 Connected] w1 = Inr w2 \<and>
      promises w2 ! 0 = Pending \<and>
      step example_constants (EngineEmitsStateChanged 0) w2 = Inr w3 \<and>
      promises w3 ! 0 = Resolved) \<and>
   (\<exists>w1. waitForMediaConnectionConnected example_constants (example_world Connected (StatsOk [])) =
            Inr (0, w1) \<and>
         promises w1 ! 0 = Resolved \<and> timers w1 = [] \<and> listeners (heap w1 ! 0) = []) \<and>
   (\<exists>w1 w2 w3.
      waitForMediaConnectionConnected example_constants (example_world_two Connecting Connecting) =
        Inr (0, w1) \<and>
      run example_constants
        [ProgramCalls (SetMediaPeerConnection (JObj 1)), EngineSetsState 1 Connected] w1 = Inr w2 \<and>
      attached 1 w2 \<and> connectionState (heap w2 ! 1) = Connected \<and>
      promises w2 ! 0 = Pending \<and> 0 \<in> set (listeners (heap w2 ! 0)) \<and>
      step example_constants (EngineEmitsStateChanged 0) w2 = Inr w3 \<and>
      promises w3 ! 0 = Resolved)"
proof -
  let ?K = example_constants
  let ?W = "example_world Connecting (StatsOk [])"
  let ?V = "example_world Connected (StatsOk [])"
  have wf: "wf_world ?W" and att: "attached 0 ?W"
    and nc: "connectionState (heap ?W ! 0) \<noteq> Connected" and len: "length (promises ?W) = 0"
    by (simp_all add: world_ops)
  from wait_resolves[OF wf att, of ?K] nc len obtain w1
    where c: "waitForMediaConnectionConnected ?K ?W = Inr (0, w1)"
      and pend: "promises w1 ! 0 = Pending"
      and before: "\<And>es. quiet_run ?K 0 es w1 \<Longrightarrow>
            \<exists>w2. run ?K es w1 = Inr w2 \<and> promises w2 ! 0 = Pending \<and>
                 0 \<in> set (listeners (heap w2 ! 0))"
      and later: "\<And>es. keeps_connection es \<Longrightarrow>
            \<exists>w2. run ?K es w1 = Inr w2 \<and>
                 (0 \<in> set (listeners (heap w2 ! 0)) \<and> connectionState (heap w2 ! 0) = Connected \<longrightarrow>
                    (\<exists>w3. step ?K (EngineEmitsStateChanged 0) w2 = Inr w3 \<and>
                          promises w3 ! 0 = Resolved))"
    by auto
  have "keeps_connection [EngineSetsState 0 Connected]" by simp
  from later[OF this] obtain w2
    where r: "run ?K [EngineSetsState 0 Connected] w1 = Inr w2"
      and e: "0 \<in> set (listeners (heap w2 ! 0)) \<and> connectionState (heap w2 ! 0) = Connected \<longrightarrow>
                (\<exists>w3. step ?K (EngineEmitsStateChanged 0) w2 = Inr w3 \<and>
                      promises w3 ! 0 = Resolved)"
    by blast
  from c have w1: "w1 = on 0 0 (setTimeout 0 (PC_BAIL_TIMEOUT ?K) (?W\<lparr>promises := [Pending]\<rparr>))"
    by (simp add: world_ops)
  have q: "quiet_run ?K 0 [EngineSetsState 0 Connected] w1"
    unfolding w1 by (simp add: world_ops)
  from before[OF q] r have still: "promises w2 ! 0 = Pending" "0 \<in> set (listeners (heap w2 ! 0))"
    by auto
  from r have "connectionState (heap w2 ! 0) = Connected"
    unfolding w1 by (auto simp: world_ops)
  with e still obtain w3 where "step ?K (EngineEmitsStateChanged 0) w2 = Inr w3"
    "promises w3 ! 0 = Resolved" by blast
  with c pend q r still have first: "\<exists>w1 w2 w3.
      waitForMediaConnectionConnected ?K ?W = Inr (0, w1) \<and> promises w1 ! 0 = Pending \<and>
      quiet_run ?K 0 [EngineSetsState 0 Connected] w1 \<and>
      run ?K [EngineSetsState 0 Connected] w1 = Inr w2 \<and> promises w2 ! 0 = Pending \<and>
      step ?K (EngineEmitsStateChanged 0) w2 = Inr w3 \<and> promises w3 ! 0 = Resolved"
    by blast
  have wf': "wf_world ?V" and att': "attached 0 ?V"
    and co: "connectionState (heap ?V ! 0) = Connected" and len': "length (promises ?V) = 0"
    and em: "timers ?V = []" "listeners (heap ?V ! 0) = []"
    by (simp_all add: world_ops)
  from wait_resolves[OF wf' att', of ?K] co len' em
  have second: "\<exists>w1. waitForMediaConnectionConnected ?K ?V = Inr (0, w1) \<and>
         promises w1 ! 0 = Resolved \<and> timers w1 = [] \<and> listeners (heap w1 ! 0) = []"
    by auto
  let ?T = "example_world_two Connecting Connecting"
  let ?swap = "[ProgramCalls (SetMediaPeerConnection (JObj 1)), EngineSetsState 1 Connected]"
  have wfT: "wf_world ?T" and attT: "attached 0 ?T"
    and ncT: "connectionState (heap ?T ! 0) \<noteq> Connected" and lenT: "length (promises ?T) = 0"
    by (simp_all add: two_ops)
  from wait_resolves[OF wfT attT, of ?K] ncT lenT obtain u1
    where cT: "waitForMediaConnectionConnected ?K ?T = Inr (0, u1)"
      and anyT: "\<forall>es w2 h2.
            run ?K es u1 = Inr w2 \<and> attached h2 w2 \<and>
            connectionState (heap w2 ! h2) = Connected \<and>
            promises w2 ! 0 = Pending \<and> 0 \<in> set (listeners (heap w2 ! 0)) \<longrightarrow>
              (\<exists>w3. step ?K (EngineEmitsStateChanged 0) w2 = Inr w3 \<and>
                    promises w3 ! 0 = Resolved)"
    by auto
  from cT have u1: "u1 = after_call ?K ?T" by (simp add: after_call_def)
  have "\<exists>u2. run ?K ?swap u1 = Inr u2 \<and> attached 1 u2 \<and>
             connectionState (heap u2 ! 1) = Connected \<and> promises u2 ! 0 = Pending \<and>
             0 \<in> set (listeners (heap u2 ! 0))"
    unfolding u1 by (simp add: two_ops)
  then obtain u2
    where ru: "run ?K ?swap u1 = Inr u2" and au: "attached 1 u2"
      and cu: "connectionState (heap u2 ! 1) = Connected"
      and pu: "promises u2 ! 0 = Pending" and lu: "0 \<in> set (listeners (heap u2 ! 0))"
    by blast
  from anyT ru au cu pu lu obtain u3
    where "step ?K (EngineEmitsStateChanged 0) u2 = Inr u3" "promises u3 ! 0 = Resolved"
    by blast
  with cT ru au cu pu lu have third: "\<exists>w1 w2 w3.
      waitForMediaConnectionConnected ?K ?T = Inr (0, w1) \<and> run ?K ?swap w1 = Inr w2 \<and>
      attached 1 w2 \<and> connectionState (heap w2 ! 1) = Connected \<and>
      promises w2 ! 0 = Pending \<and> 0 \<in> set (listeners (heap w2 ! 0)) \<and>
      step ?K (EngineEmitsStateChanged 0) w2 = Inr w3 \<and> promises w3 ! 0 = Resolved"
    by blast
  from wf att first second third show ?thesis by blast
qed

text \<open>
  Claim C1 as the specification states it, without the condition on the calls made
  meanwhile, does not hold. A call is made on the first of two connections, both
  connecting. First run: the program sets the second connection, the first one connects
  and emits the event; the listener observes it, reads the state of the second connection
  and leaves the promise pending. Second run: the program sets the second connection, the
  timer fires (\<^verbatim>\<open>off\<close> goes to the second connection, so the listener stays on the
  first, and the promise is rejected), the program sets the first connection again and it
  connects; the event is then observed while the connection is connected, and the promise
  stays rejected. Third run: the program unsets the connection, and the listener throws
  when it reads the state.
\<close>

theorem wait_resolves_counterexample:
  "waitForMediaConnectionConnected example_constants (example_world_two Connecting Connecting) =
     Inr (0, after_call example_constants (example_world_two Connecting Connecting)) \<and>
   observe (Inr (after_call example_constants (example_world_two Connecting Connecting))) =
     Inr (JObj 0, [Connecting, Connecting], [[0], []], [(0, 8000)], [Pending]) \<and>
   observe (run example_constants
              [ProgramCalls (SetMediaPeerConnection (JObj 1)), EngineSetsState 0 Connected,
               EngineEmitsStateChanged 0]
              (after_call example_constants (example_world_two Connecting Connecting))) =
     Inr (JObj 1, [Connected, Connecting], [[0], []], [(0, 8000)], [Pending]) \<and>
   observe (run example_constants
              [ProgramCalls (SetMediaPeerConnection (JObj 1)), TimerFires 0,
               ProgramCalls (SetMediaPeerConnection (JObj 0)), EngineSetsState 0 Connected]
              (after_call example_constants (example_world_two Connecting Connecting))) =
     Inr (JObj 0, [Connected, Connecting], [[0], []], [], [Rejected]) \<and>
   observe (run example_constants
              [ProgramCalls (SetMediaPeerConnection (JObj 1)), TimerFires 0,
               ProgramCalls (SetMediaPeerConnection (JObj 0)), EngineSetsState 0 Connected,
               EngineEmitsStateChanged 0]
              (after_call example_constants (example_world_two Connecting Connecting))) =
     Inr (JObj 0, [Connected, Connecting], [[], []], [], [Rejected]) \<and>
   run example_constants
     [ProgramCalls UnsetPeerConnection, EngineSetsState 0 Connected, EngineEmitsStateChanged 0]
     (after_call example_constants (example_world_two Connecting Connecting)) = Inl TypeError"
  by (simp add: two_ops)




text \<open>
  Claim C9. When \<^verbatim>\<open>webrtcMediaConnection\<close> is \<^verbatim>\<open>null\<close>, as in a new instance and
  after \<^verbatim>\<open>unsetPeerConnection\<close>, \<^verbatim>\<open>waitForMediaConnectionConnected\<close> throws a
  \<^verbatim>\<open>TypeError\<close> inside the call: no promise is returned. When a media peer
  connection is set, the call returns a promise.
\<close>

theorem wait_throws_without_connection:
  "(webrtcMediaConnection (props w) = JNull \<longrightarrow>
      waitForMediaConnectionConnected k w = Inl TypeError) \<and>
   waitForMediaConnectionConnected k (initial_world k) = Inl TypeError \<and>
   waitForMediaConnectionConnected k (w\<lparr>props := MediaProperties_constructor k\<rparr>) = Inl TypeError \<and>
   waitForMediaConnectionConnected k (w\<lparr>props := unsetPeerConnection (props w)\<rparr>) = Inl TypeError \<and>
   (attached h w \<longrightarrow> (\<exists>p w1. waitForMediaConnectionConnected k w = Inr (p, w1)))"
  using call_returns[of h w k]
  by (simp add: waitForMediaConnectionConnected_def isConnected_def connection_of_def Let_def
        initial_world_def MediaProperties_constructor_def unsetPeerConnection_def)

text \<open>
  The theorem at the initial world, where the call throws, and at a world with a
  connection, where it returns.
\<close>

theorem wait_throws_without_connection_witness:
  "webrtcMediaConnection (props (initial_world example_constants)) = JNull \<and>
   waitForMediaConnectionConnected example_constants (initial_world example_constants) =
     Inl TypeError \<and>
   attached 0 (example_world New (StatsOk [])) \<and>
   (\<exists>p w1. waitForMediaConnectionConnected example_constants (example_world New (StatsOk [])) =
             Inr (p, w1))"
proof -
  let ?K = example_constants
  have n: "webrtcMediaConnection (props (initial_world ?K)) = JNull"
    by (simp add: initial_world_def MediaProperties_constructor_def)
  have a: "attached 0 (example_world New (StatsOk []))"
    by (simp add: world_ops)
  from wait_throws_without_connection[of "initial_world ?K" ?K 0] n
  have "waitForMediaConnectionConnected ?K (initial_world ?K) = Inl TypeError" by blast
  moreover from wait_throws_without_connection[of "example_world New (StatsOk [])" ?K 0] a
  have "\<exists>p w1. waitForMediaConnectionConnected ?K (example_world New (StatsOk [])) = Inr (p, w1)"
    by blast
  ultimately show ?thesis using n a by blast
qed

section \<open>The connection type\<close>

lemma spec_successful_pairs_filter:
  "spec_successful_pairs rs = filter isSuccessfulCandidatePair rs"
  unfolding spec_successful_pairs_def
  by (rule filter_cong) (auto simp: isSuccessfulCandidatePair_def split: option.splits)

lemma toUpperCase_Nil_iff: "toUpperCase s = [] \<longleftrightarrow> s = []"
  by (simp add: toUpperCase_def)

lemma spec_pair_type_source:
  "spec_pair_type all pair =
     (case findLocalCandidate all pair of
        None \<Rightarrow> None
      | Some localCandidate \<Rightarrow>
          (case connectionTypeOf localCandidate of
             None \<Rightarrow> None
           | Some connectionType \<Rightarrow> if connectionType \<noteq> [] then Some connectionType else None))"
  by (auto simp: spec_pair_type_def findLocalCandidate_def connectionTypeOf_def
        toUpperCase_Nil_iff split: option.splits list.splits)

lemma some_pair_map_filter:
  "some_pair all pairs found =
     (case List.map_filter (spec_pair_type all) pairs of [] \<Rightarrow> found | t # ts \<Rightarrow> t)"
proof (induction pairs)
  case Nil
  then show ?case by simp
next
  case (Cons pair pairs)
  then show ?case
    by (simp add: spec_pair_type_source split: option.splits)
qed

lemma classify_spec: "classifyConnectionType rs = spec_connection_type rs"
  by (simp add: classifyConnectionType_def spec_connection_type_def some_pair_map_filter
        spec_successful_pairs_filter)

lemma getCurrentConnectionType_connected:
  assumes "attached h w" "connectionState (heap w ! h) = Connected"
  shows "getCurrentConnectionType k w =
           (Fulfilled (classifyConnectionType
              (case getStats (heap w ! h) of StatsOk reports \<Rightarrow> reports | _ \<Rightarrow> [])),
            w\<lparr>promises := promises w @ [Resolved]\<rparr>)"
proof -
  let ?w' = "w\<lparr>promises := promises w @ [Resolved]\<rparr>"
  from assms(1) have "attached h ?w'" by (simp add: attached_def)
  from connection_of_attached[OF this]
  have "collectStatsReports ?w' =
          (case getStats (heap w ! h) of StatsOk reports \<Rightarrow> reports | _ \<Rightarrow> [])"
    by (simp add: collectStatsReports_def split: StatsOutcome.splits)
  then show ?thesis
    by (simp add: getCurrentConnectionType_def getCurrentConnectionType_start_def
          getCurrentConnectionType_resume_def call_connected[OF assms])
qed

text \<open>
  Claim C3. The string computed from the reports is the one the specification describes:
  among the candidate-pair reports whose state is \<^verbatim>\<open>succeeded\<close> in any letter case,
  the first, in report order, whose local-candidate report is found and yields a defined
  (non-empty) type gives the result, \<^verbatim>\<open>TURN-\<close> and the upper-cased relay protocol
  when the candidate has one and the upper-cased protocol otherwise; without such a pair
  the result is \<^verbatim>\<open>unknown\<close>. For a connected connection whose \<^verbatim>\<open>getStats()\<close>
  yields the reports, \<^verbatim>\<open>getCurrentConnectionType\<close> is fulfilled with that string.
\<close>

theorem classification_as_specified:
  "classifyConnectionType reports = spec_connection_type reports \<and>
   (attached h w \<and> connectionState (heap w ! h) = Connected \<and>
    getStats (heap w ! h) = StatsOk reports \<longrightarrow>
      fst (getCurrentConnectionType k w) = Fulfilled (spec_connection_type reports))"
  by (auto simp: classify_spec getCurrentConnectionType_connected)

text \<open>
  The theorem at the example reports, a pair in state \<^verbatim>\<open>Succeeded\<close> whose local
  candidate is relayed over \<^verbatim>\<open>tls\<close>.
\<close>

theorem classification_as_specified_witness:
  "attached 0 (example_world Connected (StatsOk example_reports)) \<and>
   connectionState (heap (example_world Connected (StatsOk example_reports)) ! 0) = Connected \<and>
   getStats (heap (example_world Connected (StatsOk example_reports)) ! 0) =
     StatsOk example_reports \<and>
   fst (getCurrentConnectionType example_constants
          (example_world Connected (StatsOk example_reports))) = Fulfilled ''TURN-TLS'' \<and>
   classifyConnectionType example_reports = ''TURN-TLS''"
proof -
  let ?W = "example_world Connected (StatsOk example_reports)"
  have h: "attached 0 ?W" "connectionState (heap ?W ! 0) = Connected"
    "getStats (heap ?W ! 0) = StatsOk example_reports"
    by (simp_all add: world_ops)
  from classification_as_specified[of example_reports 0 ?W example_constants] h
  have "fst (getCurrentConnectionType example_constants ?W) =
          Fulfilled (spec_connection_type example_reports)"
    and "classifyConnectionType example_reports = spec_connection_type example_reports"
    by blast+
  with h show ?thesis by (simp add: example_reports_type)
qed



end
